theory Spec2Isabelle
  imports Main
begin

section \<open>Strings of the Go runtime\<close>

text \<open>
  A Go \<^verbatim>\<open>string\<close> is a sequence of bytes; \<^verbatim>\<open>len(s)\<close> counts bytes and \<^verbatim>\<open>s[i]\<close> is a
  byte. It is modelled by \<^typ>\<open>string\<close>, whose characters are the 256 byte values.
\<close>

definition byte :: "char \<Rightarrow> nat" where
  "byte c = of_char c"

text \<open>
  \<^verbatim>\<open>unicode.IsDigit(rune(b))\<close> for a byte \<^verbatim>\<open>b\<close>: the rune is at most \<^verbatim>\<open>0xFF\<close>, where the
  standard library answers \<^verbatim>\<open>'0' <= r && r <= '9'\<close>.
\<close>

definition unicode_IsDigit :: "char \<Rightarrow> bool" where
  "unicode_IsDigit c = (48 \<le> byte c \<and> byte c \<le> 57)"

definition isASCII :: "string \<Rightarrow> bool" where
  "isASCII s = list_all (\<lambda>c. byte c < 128) s"

definition lower_byte :: "char \<Rightarrow> char" where
  "lower_byte c = (if 65 \<le> byte c \<and> byte c \<le> 90 then char_of (byte c + 32) else c)"

text \<open>
  \<^verbatim>\<open>strings.ToLower\<close>: a string of ASCII bytes only is lowered byte by byte; any other
  string goes through \<^verbatim>\<open>strings.Map(unicode.ToLower, s)\<close>, which needs the Unicode case
  tables of the standard library and is the parameter \<open>ulower\<close>.
\<close>

definition strings_ToLower :: "(string \<Rightarrow> string) \<Rightarrow> string \<Rightarrow> string" where
  "strings_ToLower ulower s = (if isASCII s then map lower_byte s else ulower s)"


text \<open>A stand-in for the Unicode path at concrete inputs (all of them ASCII).\<close>

definition ulower_id :: "string \<Rightarrow> string" where
  "ulower_id s = s"

section \<open>Errors\<close>

text \<open>
  A Go \<^verbatim>\<open>error\<close> value, by the place that creates it:
  \<^item> \<open>NotAbsolute r\<close> is \<^verbatim>\<open>"build: expected an absolute path, got %q"\<close> for \<open>r\<close>;
  \<^item> \<open>AuthRequired\<close> is \<^verbatim>\<open>"build: builder requires registry auth"\<close>;
  \<^item> \<open>UnknownBuilder n\<close> is \<^verbatim>\<open>"build: unknown builder type %q"\<close> for \<open>n\<close>;
  \<^item> \<open>FileRequired f\<close> is \<^verbatim>\<open>"build: the file %s is required"\<close> for \<open>f\<close>;
  \<^item> \<open>ImageNotFound t\<close> is \<^verbatim>\<open>"build: image with the tag %q was not found"\<close> for \<open>t\<close>;
  \<^item> \<open>External m\<close> is an error handed back by a collaborator (engine, remote API,
    staging tree, standard library);
  \<^item> \<open>Wrap m e\<close> is \<^verbatim>\<open>errors.Wrap(e, m)\<close> and \<open>Wrapf f a e\<close> is \<^verbatim>\<open>errors.Wrapf(e, f, a)\<close>.

  \<open>IndexOutOfRange i n\<close> is not a returned error but the run-time panic of indexing a
  string of length \<open>n\<close> at \<open>i\<close>; it unwinds through every caller unwrapped.
\<close>

datatype error =
    IndexOutOfRange int nat
  | NotAbsolute string
  | AuthRequired
  | UnknownBuilder string
  | FileRequired string
  | ImageNotFound string
  | External string
  | Wrap string error
  | Wrapf string string error

fun is_panic :: "error \<Rightarrow> bool" where
  "is_panic (IndexOutOfRange i n) = True"
| "is_panic e = False"

definition errors_Wrap :: "string \<Rightarrow> error \<Rightarrow> error" where
  "errors_Wrap msg e = (if is_panic e then e else Wrap msg e)"

definition errors_Wrapf :: "string \<Rightarrow> string \<Rightarrow> error \<Rightarrow> error" where
  "errors_Wrapf fmt a e = (if is_panic e then e else Wrapf fmt a e)"

section \<open>Task ID sanitization\<close>

text \<open>
  \<^verbatim>\<open>sanitizeTaskID\<close>: lower the ID, then look at the byte at \<^verbatim>\<open>len(s)-1\<close>. The index
  expression has no guard, so on a string of length 0 it is \<^verbatim>\<open>s[-1]\<close> and panics.
\<close>

definition sanitizeTaskID :: "(string \<Rightarrow> string) \<Rightarrow> string \<Rightarrow> error + string" where
  "sanitizeTaskID ulower s0 =
     (let s = strings_ToLower ulower s0 in
      if length s = 0 then Inl (IndexOutOfRange (int (length s) - 1) (length s))
      else if unicode_IsDigit (s ! (length s - 1))
           then Inr (take (length s - 1) s @ ''a'')
           else Inr s)"


section \<open>Paths and the file system\<close>

text \<open>
  The path functions of the standard library on a Unix target, where the separator is
  \<^verbatim>\<open>/\<close>. \<^verbatim>\<open>filepath.IsAbs\<close> is \<^verbatim>\<open>strings.HasPrefix(path, "/")\<close>.
\<close>

definition filepath_IsAbs :: "string \<Rightarrow> bool" where
  "filepath_IsAbs p = (case p of [] \<Rightarrow> False | c # cs \<Rightarrow> c = CHR ''/'')"

text \<open>
  \<^verbatim>\<open>path.Base\<close>: the empty path gives \<^verbatim>\<open>.\<close>; trailing slashes are stripped, then everything
  up to the last slash; a path of slashes only gives \<^verbatim>\<open>/\<close>.
\<close>

definition path_Base :: "string \<Rightarrow> string" where
  "path_Base p =
     (if p = [] then ''.''
      else let q = rev (dropWhile (\<lambda>c. c = CHR ''/'') (rev p));
               r = rev (takeWhile (\<lambda>c. c \<noteq> CHR ''/'') (rev q))
           in if r = [] then ''/'' else r)"

text \<open>\<^verbatim>\<open>strings.Split(s, "/")\<close> and \<^verbatim>\<open>strings.Join(xs, "/")\<close>.\<close>

fun split_slash :: "string \<Rightarrow> string list" where
  "split_slash [] = [[]]"
| "split_slash (c # cs) =
     (if c = CHR ''/'' then [] # split_slash cs
      else (case split_slash cs of [] \<Rightarrow> [[c]] | x # xs \<Rightarrow> (c # x) # xs))"

fun join_slash :: "string list \<Rightarrow> string" where
  "join_slash [] = []"
| "join_slash [x] = x"
| "join_slash (x # y # ys) = x @ ''/'' @ join_slash (y # ys)"

text \<open>
  \<^verbatim>\<open>filepath.Clean\<close>, one path element at a time; \<open>out\<close> holds the elements kept so far,
  the last one first. Empty elements and \<^verbatim>\<open>.\<close> are dropped; \<^verbatim>\<open>..\<close> removes the element
  before it, is dropped at the root of a rooted path, and is kept where a relative path
  cannot go further back.
\<close>

definition clean_step :: "bool \<Rightarrow> string list \<Rightarrow> string \<Rightarrow> string list" where
  "clean_step rooted out el =
     (if el = [] \<or> el = ''.'' then out
      else if el = ''..'' then
        (case out of
           [] \<Rightarrow> (if rooted then [] else [''..''])
         | x # xs \<Rightarrow> (if x = ''..'' then ''..'' # out else xs))
      else el # out)"

definition filepath_Clean :: "string \<Rightarrow> string" where
  "filepath_Clean p =
     (if p = [] then ''.''
      else let rooted = filepath_IsAbs p;
               body = join_slash (rev (foldl (clean_step rooted) [] (split_slash p)))
           in if rooted then ''/'' @ body
              else if body = [] then ''.'' else body)"

text \<open>
  \<^verbatim>\<open>filepath.Join(a, b)\<close>: the elements from the first non-empty one on are joined with
  the separator and cleaned; with no non-empty element the result is empty.
\<close>

definition filepath_Join :: "string \<Rightarrow> string \<Rightarrow> string" where
  "filepath_Join a b =
     (if a \<noteq> [] then filepath_Clean (a @ ''/'' @ b)
      else if b \<noteq> [] then filepath_Clean b
      else [])"

text \<open>
  The file system is read through \<^verbatim>\<open>os.Stat\<close> only: \<open>st p\<close> holds when \<^verbatim>\<open>os.Stat(p)\<close>
  does not fail with a not-exist error. \<^verbatim>\<open>exist\<close> returns the error of the first path
  that is not there, named by its base name.
\<close>

fun exist :: "(string \<Rightarrow> bool) \<Rightarrow> string list \<Rightarrow> error option" where
  "exist st [] = None"
| "exist st (p # ps) =
     (if \<not> st p then Some (FileRequired (path_Base p)) else exist st ps)"

text \<open>
  Modelled from the spec: the package \<^verbatim>\<open>fsx\<close> (\<^verbatim>\<open>AssertExistsAll\<close>, \<^verbatim>\<open>Exists\<close>), which the
  Python generator calls, is not among the sources. The spec has the file checks as
  simple existence checks and a missing file as an error naming the file, which is what
  \<^verbatim>\<open>exist\<close> of the build package does; \<^verbatim>\<open>fsx.AssertExistsAll\<close> is taken to be \<^verbatim>\<open>exist\<close> and
  \<^verbatim>\<open>fsx.Exists\<close> the same test as a boolean.
\<close>

definition fsx_AssertExistsAll :: "(string \<Rightarrow> bool) \<Rightarrow> string list \<Rightarrow> error option" where
  "fsx_AssertExistsAll st ps = exist st ps"

definition fsx_Exists :: "(string \<Rightarrow> bool) \<Rightarrow> string \<Rightarrow> bool" where
  "fsx_Exists st p = st p"

section \<open>Data model\<close>

text \<open>
  \<^verbatim>\<open>Args\<close> and \<^verbatim>\<open>api.KindOptions\<close> are \<^verbatim>\<open>map[string]string\<close>; reading a key that is not
  there gives the empty string (on such a map the assertion \<^verbatim>\<open>.(string)\<close> of the Python
  generator is the identity).
\<close>

type_synonym Args = "string \<rightharpoonup> string"

definition lookup :: "Args \<Rightarrow> string \<Rightarrow> string" where
  "lookup m k = (case m k of None \<Rightarrow> [] | Some v \<Rightarrow> v)"

record RegistryAuth =
  Token :: string
  Repo :: string

datatype writer = Stderr | Sink nat

text \<open>
  \<^verbatim>\<open>Config\<close>, the argument of \<^verbatim>\<open>New\<close>. A nil map, a nil pointer and a nil writer are
  \<open>None\<close>. \<^verbatim>\<open>Local\<close> builds its configuration with a field \<^verbatim>\<open>BuildEnv\<close>, which the
  \<^verbatim>\<open>New\<close> and \<^verbatim>\<open>Build\<close> among the sources never read; it is carried here as that.
\<close>

record Config =
  Kind :: string
  Root :: string
  Builder :: string
  Args :: "Args option"
  Auth :: "RegistryAuth option"
  Writer :: "writer option"
  BuildEnv :: Args

text \<open>The fields of \<^verbatim>\<open>DockerfileConfig\<close> carry the prefix \<open>df_\<close>, those of \<^verbatim>\<open>Builder\<close> \<open>b_\<close>.\<close>

record DockerfileConfig =
  df_Builder :: string
  df_Root :: string
  df_Args :: Args

text \<open>
  \<^verbatim>\<open>Builder\<close>. Its fields are unexported and only \<^verbatim>\<open>New\<close> makes one, so \<open>b_auth\<close> is never
  nil and \<open>b_args\<close> never a nil map. The engine client it holds is the world below.
\<close>

record Builder =
  b_root :: string
  b_name :: string
  b_args :: Args
  b_writer :: writer
  b_auth :: RegistryAuth

record BuildOutput =
  Tag :: string

text \<open>
  \<^verbatim>\<open>types.AuthConfig\<close> of the engine API; the code sets \<^verbatim>\<open>Username\<close> and \<^verbatim>\<open>Password\<close> and
  leaves every other field, \<^verbatim>\<open>ServerAddress\<close> among them, at its zero value.
\<close>

record AuthConfig =
  Username :: string
  Password :: string
  ServerAddress :: string

text \<open>\<^verbatim>\<open>types.ImageBuildOptions\<close>, the fields the code sets; \<^verbatim>\<open>BuildArgs\<close> maps to \<^verbatim>\<open>*string\<close>.\<close>

record ImageBuildOptions =
  Tags :: "string list"
  BuildArgs :: "string \<rightharpoonup> string option"
  Platform :: string
  AuthConfigs :: "string \<rightharpoonup> AuthConfig"

text \<open>The build context handed to the engine: the staged recipe and the tree copied.\<close>

record archive =
  a_dockerfile :: string
  a_root :: string

text \<open>
  The push credential on the wire:
  \<^verbatim>\<open>base64.URLEncoding.EncodeToString(json.Marshal(authConfig))\<close>.
\<close>

datatype payload = Base64URL_JSON AuthConfig

text \<open>Remote API: registry token, config lookup (fields prefixed \<open>rt_\<close>, \<open>cr_\<close>, \<open>nt_\<close>).\<close>

record RegistryTokenResponse =
  rt_Token :: string
  rt_Repo :: string

record GetConfigRequest =
  cr_Name :: string
  cr_Tag :: string
  cr_ShowSecret :: bool

record NameTag =
  nt_Name :: string
  nt_Tag :: string

text \<open>\<^verbatim>\<open>api.EnvVarValue\<close>: a literal \<^verbatim>\<open>Value\<close>, or a \<^verbatim>\<open>Config\<close> reference; nil is \<open>None\<close>.\<close>

record EnvVarValue =
  ev_Value :: "string option"
  ev_Config :: "string option"

text \<open>
  A task definition, as far as \<^verbatim>\<open>Local\<close> reads it: \<open>Env\<close> lists the entries of the
  environment map in the order the \<^verbatim>\<open>range\<close> loop visits them (any order of the map is
  such a list, with distinct keys); \<open>KindAndOptions\<close> is what \<^verbatim>\<open>GetKindAndOptions\<close>
  returns for it.
\<close>

record Definition =
  Env :: "(string \<times> EnvVarValue) list"
  KindAndOptions :: "error + (string \<times> Args)"

record TaskDirectory =
  DefinitionRootPath :: string

section \<open>The world outside\<close>

text \<open>
  Everything the code reaches outside itself, as the answers it gets:
  \<^item> \<open>unicode_lower\<close>: the Unicode path of \<^verbatim>\<open>strings.ToLower\<close>;
  \<^item> \<open>stat\<close>: the file system, see above;
  \<^item> \<open>GetVersion\<close>: the version table (\<^verbatim>\<open>GetVersion(name, hint)\<close>, with \<^verbatim>\<open>v.String()\<close> applied);
  \<^item> \<open>shim_template\<close>: \<^verbatim>\<open>applyTemplate\<close> on the embedded \<^verbatim>\<open>python-shim.py\<close> for an entrypoint;
  \<^item> \<open>golang_rest\<close>, \<open>deno_rest\<close>, \<open>node_rest\<close>, \<open>docker_rest\<close>: what each of these
    generators does after its file check;
  \<^item> \<open>NewTree\<close>, \<open>tree_Write\<close>, \<open>tree_Copy\<close>, \<open>tree_Archive\<close>: the staging tree, by the error
    each call returns, if any;
  \<^item> \<open>NewClient\<close>: \<^verbatim>\<open>client.NewClientWithOpts\<close>, by its error, if any;
  \<^item> \<open>ImageBuild\<close>, \<open>ImageList\<close>, \<open>ImagePush\<close>: the engine; a build or a push answers with
    a body to stream, a listing with the \<^verbatim>\<open>RepoTags\<close> of each image;
  \<^item> \<open>copy_output\<close>: \<^verbatim>\<open>io.Copy\<close> of a body to the writer, by its error, if any;
  \<^item> \<open>GetRegistryToken\<close>, \<open>GetConfig\<close> (answering with \<^verbatim>\<open>res.Config.Value\<close>),
    \<open>ParseName\<close> (\<^verbatim>\<open>configs.ParseName\<close>): the remote API.
\<close>

record world =
  unicode_lower :: "string \<Rightarrow> string"
  stat :: "string \<Rightarrow> bool"
  GetVersion :: "string \<Rightarrow> string \<Rightarrow> error + string"
  shim_template :: "string \<Rightarrow> error + string"
  golang_rest :: "string \<Rightarrow> Args \<Rightarrow> error + string"
  deno_rest :: "string \<Rightarrow> Args \<Rightarrow> error + string"
  node_rest :: "string \<Rightarrow> Args \<Rightarrow> error + string"
  docker_rest :: "string \<Rightarrow> Args \<Rightarrow> error + string"
  NewTree :: "error option"
  tree_Write :: "string \<Rightarrow> string \<Rightarrow> error option"
  tree_Copy :: "string \<Rightarrow> error option"
  tree_Archive :: "error option"
  NewClient :: "error option"
  ImageBuild :: "archive \<Rightarrow> ImageBuildOptions \<Rightarrow> error + string"
  ImageList :: "error + string list list"
  ImagePush :: "string \<Rightarrow> payload \<Rightarrow> error + string"
  copy_output :: "writer \<Rightarrow> string \<Rightarrow> error option"
  GetRegistryToken :: "error + RegistryTokenResponse"
  GetConfig :: "GetConfigRequest \<Rightarrow> error + string"
  ParseName :: "string \<Rightarrow> error + NameTag"

text \<open>
  The log of what a run did outside itself, in order: each call of the remote API and of
  the engine as it is issued, and the start of Dockerfile synthesis.
\<close>

datatype event =
    EvGetRegistryToken
  | EvGetConfig GetConfigRequest
  | EvSynthesize DockerfileConfig
  | EvImageBuild archive ImageBuildOptions
  | EvImageList
  | EvImagePush string payload

fun is_engine_call :: "event \<Rightarrow> bool" where
  "is_engine_call (EvImageBuild bc opts) = True"
| "is_engine_call EvImageList = True"
| "is_engine_call (EvImagePush t p) = True"
| "is_engine_call ev = False"

fun is_build_step :: "event \<Rightarrow> bool" where
  "is_build_step (EvSynthesize c) = True"
| "is_build_step ev = is_engine_call ev"

fun is_push :: "event \<Rightarrow> bool" where
  "is_push (EvImagePush t p) = True"
| "is_push ev = False"

section \<open>Registry auth provider\<close>

text \<open>\<^verbatim>\<open>strings.SplitN(s, "/", 2)\<close>: at most two pieces, cut at the first separator.\<close>

definition SplitN2 :: "string \<Rightarrow> string list" where
  "SplitN2 s =
     (case dropWhile (\<lambda>c. c \<noteq> CHR ''/'') s of
        [] \<Rightarrow> [s]
      | c # rest \<Rightarrow> [takeWhile (\<lambda>c. c \<noteq> CHR ''/'') s, rest])"

text \<open>\<^verbatim>\<open>RegistryAuth.host\<close>: element 0 of the split, which always has one.\<close>

definition host :: "RegistryAuth \<Rightarrow> string" where
  "host r = (case SplitN2 (Repo r) of [] \<Rightarrow> [] | x # xs \<Rightarrow> x)"

definition registryAuth :: "Builder \<Rightarrow> AuthConfig" where
  "registryAuth b =
     \<lparr>Username = ''oauth2accesstoken'', Password = Token (b_auth b), ServerAddress = []\<rparr>"

definition authconfigs :: "Builder \<Rightarrow> (string \<rightharpoonup> AuthConfig)" where
  "authconfigs b = [host (b_auth b) \<mapsto> registryAuth b]"

section \<open>Builder construction\<close>

text \<open>
  \<^verbatim>\<open>New\<close>, in the order of the source: the root check, the three defaults, the auth
  check, the engine client.
\<close>

definition New :: "world \<Rightarrow> Config \<Rightarrow> error + Builder" where
  "New w c =
     (if \<not> filepath_IsAbs (Root c) then Inl (NotAbsolute (Root c))
      else
        let nm = (if Builder c = [] then ''manual'' else Builder c);
            ar = (case Args c of None \<Rightarrow> Map.empty | Some a \<Rightarrow> a);
            wr = (case Writer c of None \<Rightarrow> Stderr | Some x \<Rightarrow> x)
        in case Auth c of
             None \<Rightarrow> Inl AuthRequired
           | Some a \<Rightarrow>
               (case NewClient w of
                  Some e \<Rightarrow> Inl e
                | None \<Rightarrow>
                    Inr \<lparr>b_root = Root c, b_name = nm, b_args = ar, b_writer = wr, b_auth = a\<rparr>))"

section \<open>Dockerfile synthesis\<close>

definition NamePython :: string where
  "NamePython = ''python''"

text \<open>
  The two Dockerfile templates of the Python generator, rendered. A template is the raw
  string of the source, byte for byte; an action is replaced by its value, and the text
  between \<^verbatim>\<open>{{if}}\<close> and \<^verbatim>\<open>{{end}}\<close> is kept or left out as a whole. The tab is byte 9,
  the apostrophe byte 39, the backslash byte 92.
\<close>

definition python_dockerfile :: "string \<Rightarrow> string \<Rightarrow> bool \<Rightarrow> string" where
  \<open>python_dockerfile base shim hasRequirements =
     ''\<newline>    FROM '' @ base @
     ''\<newline>    WORKDIR /airplane\<newline>    RUN mkdir -p .airplane && echo '' @ [CHR 0x27] @ shim @ [CHR 0x27] @
     '' > .airplane/shim.py\<newline>    '' @
     (if hasRequirements
      then ''\<newline>    COPY requirements.txt .\<newline>    RUN pip install -r requirements.txt\<newline>    ''
      else []) @
     ''\<newline>    COPY . .\<newline>    ENTRYPOINT ["python", ".airplane/shim.py"]\<newline>'' @ [CHR 0x09]\<close>

definition python_legacy_dockerfile :: "string \<Rightarrow> string \<Rightarrow> bool \<Rightarrow> string" where
  \<open>python_legacy_dockerfile base entrypoint hasRequirements =
     ''\<newline>    FROM '' @ base @
     ''\<newline>    WORKDIR /airplane\<newline>'' @ [CHR 0x09, CHR 0x09] @
     (if \<not> hasRequirements
      then ''\<newline>'' @ [CHR 0x09, CHR 0x09] @ ''RUN echo > requirements.txt\<newline>'' @ [CHR 0x09, CHR 0x09]
      else []) @
     ''\<newline>    COPY . .\<newline>    RUN pip install -r requirements.txt\<newline>    ENTRYPOINT ["python", "/airplane/'' @
     entrypoint @ ''"]\<newline>'' @ [CHR 0x09]\<close>

text \<open>
  \<^verbatim>\<open>strings.Join(strings.Split(shim, "\n"), "\\n\\\n")\<close>: every newline of the shim becomes
  backslash, \<^verbatim>\<open>n\<close>, backslash, newline.
\<close>

definition escape_newlines :: "string \<Rightarrow> string" where
  "escape_newlines s =
     concat (map (\<lambda>c. if c = CHR 0x0A then [CHR 0x5C, CHR ''n'', CHR 0x5C, CHR 0x0A] else [c]) s)"

definition PythonShim :: "world \<Rightarrow> string \<Rightarrow> error + string" where
  "PythonShim w entrypoint =
     (case shim_template w entrypoint of
        Inl e \<Rightarrow> Inl (errors_Wrap ''rendering shim'' e)
      | Inr shim \<Rightarrow> Inr shim)"

definition pythonLegacy :: "world \<Rightarrow> string \<Rightarrow> Args \<Rightarrow> error + string" where
  "pythonLegacy w rt ar =
     (let entrypoint = lookup ar ''entrypoint'';
          main = filepath_Join rt entrypoint;
          reqs = filepath_Join rt ''requirements.txt''
      in case fsx_AssertExistsAll (stat w) [main] of
           Some e \<Rightarrow> Inl e
         | None \<Rightarrow>
             (case GetVersion w NamePython ''3'' of
                Inl e \<Rightarrow> Inl e
              | Inr v \<Rightarrow>
                  Inr (python_legacy_dockerfile v entrypoint
                         (fsx_AssertExistsAll (stat w) [reqs] = None))))"

definition python :: "world \<Rightarrow> string \<Rightarrow> Args \<Rightarrow> error + string" where
  "python w rt ar =
     (if lookup ar ''shim'' \<noteq> ''true'' then pythonLegacy w rt ar
      else
        let entrypoint = lookup ar ''entrypoint''
        in case fsx_AssertExistsAll (stat w) [filepath_Join rt entrypoint] of
             Some e \<Rightarrow> Inl e
           | None \<Rightarrow>
               (case GetVersion w NamePython ''3'' of
                  Inl e \<Rightarrow> Inl e
                | Inr v \<Rightarrow>
                    (case PythonShim w entrypoint of
                       Inl e \<Rightarrow> Inl e
                     | Inr shim \<Rightarrow>
                         Inr (python_dockerfile v (escape_newlines shim)
                                (fsx_Exists (stat w) (filepath_Join rt ''requirements.txt''))))))"

text \<open>
  Modelled from the spec: the generators \<^verbatim>\<open>golang\<close>, \<^verbatim>\<open>deno\<close>, \<^verbatim>\<open>node\<close> and \<^verbatim>\<open>docker\<close> that
  \<^verbatim>\<open>BuildDockerfile\<close> calls are not among the sources. By the spec each generator first
  verifies that the required entrypoint exists under the root, a missing file being an
  error that names the file, and only then resolves versions and renders; the part after
  the check is the \<open>rest\<close> argument.
\<close>

definition generator_from_spec ::
  "world \<Rightarrow> (string \<Rightarrow> Args \<Rightarrow> error + string) \<Rightarrow> string \<Rightarrow> Args \<Rightarrow> error + string" where
  "generator_from_spec w rest rt ar =
     (case exist (stat w) [filepath_Join rt (lookup ar ''entrypoint'')] of
        Some e \<Rightarrow> Inl e
      | None \<Rightarrow> rest rt ar)"

definition golang :: "world \<Rightarrow> string \<Rightarrow> Args \<Rightarrow> error + string" where
  "golang w = generator_from_spec w (golang_rest w)"

definition deno :: "world \<Rightarrow> string \<Rightarrow> Args \<Rightarrow> error + string" where
  "deno w = generator_from_spec w (deno_rest w)"

definition node :: "world \<Rightarrow> string \<Rightarrow> Args \<Rightarrow> error + string" where
  "node w = generator_from_spec w (node_rest w)"

definition docker :: "world \<Rightarrow> string \<Rightarrow> Args \<Rightarrow> error + string" where
  "docker w = generator_from_spec w (docker_rest w)"

text \<open>
  \<^verbatim>\<open>BuildDockerfile\<close>: the \<^verbatim>\<open>switch\<close> over the builder names \<^verbatim>\<open>go\<close>, \<^verbatim>\<open>deno\<close>, \<^verbatim>\<open>python\<close>,
  \<^verbatim>\<open>node\<close> and \<^verbatim>\<open>docker\<close>, with the unknown-builder error as its default.
\<close>

definition BuildDockerfile :: "world \<Rightarrow> DockerfileConfig \<Rightarrow> error + string" where
  "BuildDockerfile w c =
     (if df_Builder c = ''go'' then golang w (df_Root c) (df_Args c)
      else if df_Builder c = ''deno'' then deno w (df_Root c) (df_Args c)
      else if df_Builder c = ''python'' then python w (df_Root c) (df_Args c)
      else if df_Builder c = ''node'' then node w (df_Root c) (df_Args c)
      else if df_Builder c = ''docker'' then docker w (df_Root c) (df_Args c)
      else Inl (UnknownBuilder (df_Builder c)))"

section \<open>Build, verification and push\<close>

text \<open>The two loops over the image listing: the first tag equal to \<open>tag\<close>.\<close>

fun find_tag :: "string \<Rightarrow> string list \<Rightarrow> string option" where
  "find_tag tag [] = None"
| "find_tag tag (t # ts) = (if t = tag then Some t else find_tag tag ts)"

fun search_images :: "string \<Rightarrow> string list list \<Rightarrow> string option" where
  "search_images tag [] = None"
| "search_images tag (img # imgs) =
     (case find_tag tag img of Some t \<Rightarrow> Some t | None \<Rightarrow> search_images tag imgs)"

definition build_options :: "Builder \<Rightarrow> string \<Rightarrow> ImageBuildOptions" where
  "build_options b tag =
     \<lparr>Tags = [tag], BuildArgs = Map.empty, Platform = ''linux/amd64'',
      AuthConfigs = authconfigs b\<rparr>"

text \<open>
  The part of \<^verbatim>\<open>Build\<close> that talks to the engine: the build call, streaming its
  output, the listing, the search. It returns the log with its result.
\<close>

definition build_on_engine ::
  "world \<Rightarrow> Builder \<Rightarrow> string \<Rightarrow> archive \<Rightarrow> event list \<times> (error + BuildOutput)" where
  "build_on_engine w b tag bc =
     (let opts = build_options b tag
      in case ImageBuild w bc opts of
           Inl e \<Rightarrow> ([EvImageBuild bc opts], Inl (errors_Wrap ''image build'' e))
         | Inr body \<Rightarrow>
             (case copy_output w (b_writer b) body of
                Some e \<Rightarrow> ([EvImageBuild bc opts], Inl (errors_Wrap ''copy output'' e))
              | None \<Rightarrow>
                  (case ImageList w of
                     Inl e \<Rightarrow>
                       ([EvImageBuild bc opts, EvImageList], Inl (errors_Wrap ''image list'' e))
                   | Inr images \<Rightarrow>
                       ([EvImageBuild bc opts, EvImageList],
                        (case search_images tag images of
                           Some t \<Rightarrow> Inr \<lparr>Tag = t\<rparr>
                         | None \<Rightarrow> Inl (ImageNotFound tag))))))"

text \<open>
  \<^verbatim>\<open>Build\<close>. The tag is composed first, so a panic of the sanitizer ends the call before
  anything else happens. Then the staging tree, the recipe, the context, the engine.
\<close>

definition compose_tag :: "string \<Rightarrow> string \<Rightarrow> string \<Rightarrow> string" where
  "compose_tag repo sid version = repo @ ''/'' @ (''task-'' @ sid) @ '':'' @ version"

definition Build ::
  "world \<Rightarrow> Builder \<Rightarrow> string \<Rightarrow> string \<Rightarrow> event list \<times> (error + BuildOutput)" where
  "Build w b taskID version =
     (case sanitizeTaskID (unicode_lower w) taskID of
        Inl p \<Rightarrow> ([], Inl p)
      | Inr sid \<Rightarrow>
          let tag = compose_tag (Repo (b_auth b)) sid version;
              cfg = \<lparr>df_Builder = b_name b, df_Root = b_root b, df_Args = b_args b\<rparr>
          in (case NewTree w of
               Some e \<Rightarrow> ([], Inl (errors_Wrap ''new tree'' e))
             | None \<Rightarrow>
                 (case BuildDockerfile w cfg of
                    Inl e \<Rightarrow> ([EvSynthesize cfg], Inl (errors_Wrap ''creating dockerfile'' e))
                  | Inr buf \<Rightarrow>
                      (case tree_Write w ''Dockerfile'' buf of
                         Some e \<Rightarrow>
                           ([EvSynthesize cfg], Inl (errors_Wrap ''writing dockerfile'' e))
                       | None \<Rightarrow>
                           (case tree_Copy w (b_root b) of
                              Some e \<Rightarrow>
                                ([EvSynthesize cfg], Inl (errors_Wrapf ''copy %q'' (b_root b) e))
                            | None \<Rightarrow>
                                (case tree_Archive w of
                                   Some e \<Rightarrow>
                                     ([EvSynthesize cfg], Inl (errors_Wrap ''archive tree'' e))
                                 | None \<Rightarrow>
                                     (case build_on_engine w b tag
                                             \<lparr>a_dockerfile = buf, a_root = b_root b\<rparr> of
                                        (evs, r) \<Rightarrow> (EvSynthesize cfg # evs, r))))))))"

text \<open>
  \<^verbatim>\<open>Push\<close>. Marshalling a struct of strings cannot fail, so the first error is the
  engine's.
\<close>

definition Push :: "world \<Rightarrow> Builder \<Rightarrow> string \<Rightarrow> event list \<times> error option" where
  "Push w b tag =
     (let p = Base64URL_JSON (registryAuth b)
      in case ImagePush w tag p of
           Inl e \<Rightarrow> ([EvImagePush tag p], Some e)
         | Inr body \<Rightarrow>
             ([EvImagePush tag p],
              (case copy_output w (b_writer b) body of
                 Some e \<Rightarrow> Some (errors_Wrap ''image push'' e)
               | None \<Rightarrow> None)))"

section \<open>Build env resolution and the orchestrator\<close>

text \<open>
  The loop of \<^verbatim>\<open>getBuildEnv\<close> over the entries still to visit, with the map built so far
  and the log so far. An entry with neither a value nor a config is skipped.
\<close>

fun getBuildEnv_loop ::
  "world \<Rightarrow> (string \<times> EnvVarValue) list \<Rightarrow> Args \<Rightarrow> event list \<Rightarrow> event list \<times> (error + Args)" where
  "getBuildEnv_loop w [] buildEnv lg = (lg, Inr buildEnv)"
| "getBuildEnv_loop w ((k, v) # rest) buildEnv lg =
     (case ev_Value v of
        Some lit \<Rightarrow> getBuildEnv_loop w rest (buildEnv(k \<mapsto> lit)) lg
      | None \<Rightarrow>
          (case ev_Config v of
             None \<Rightarrow> getBuildEnv_loop w rest buildEnv lg
           | Some c \<Rightarrow>
               (case ParseName w c of
                  Inl e \<Rightarrow> (lg, Inl e)
                | Inr nt \<Rightarrow>
                    (case GetConfig w
                            \<lparr>cr_Name = nt_Name nt, cr_Tag = nt_Tag nt, cr_ShowSecret = True\<rparr> of
                       Inl e \<Rightarrow>
                         (lg @ [EvGetConfig
                                  \<lparr>cr_Name = nt_Name nt, cr_Tag = nt_Tag nt, cr_ShowSecret = True\<rparr>],
                          Inl e)
                     | Inr val \<Rightarrow>
                         getBuildEnv_loop w rest (buildEnv(k \<mapsto> val))
                           (lg @ [EvGetConfig
                                    \<lparr>cr_Name = nt_Name nt, cr_Tag = nt_Tag nt,
                                     cr_ShowSecret = True\<rparr>])))))"

text \<open>
  The error, if any, that one entry of the environment map runs into when the loop
  reaches it: none for a literal and for an entry with neither field, the error of
  \<^verbatim>\<open>configs.ParseName\<close> or of \<^verbatim>\<open>GetConfig\<close> for a reference.
\<close>

definition resolution_error :: "world \<Rightarrow> EnvVarValue \<Rightarrow> error option" where
  "resolution_error w v =
     (case ev_Value v of
        Some lit \<Rightarrow> None
      | None \<Rightarrow>
          (case ev_Config v of
             None \<Rightarrow> None
           | Some c \<Rightarrow>
               (case ParseName w c of
                  Inl e \<Rightarrow> Some e
                | Inr nt \<Rightarrow>
                    (case GetConfig w
                            \<lparr>cr_Name = nt_Name nt, cr_Tag = nt_Tag nt, cr_ShowSecret = True\<rparr> of
                       Inl e \<Rightarrow> Some e
                     | Inr val \<Rightarrow> None))))"

definition getBuildEnv :: "world \<Rightarrow> Definition \<Rightarrow> event list \<times> (error + Args)" where
  "getBuildEnv w d = getBuildEnv_loop w (Env d) Map.empty []"

text \<open>The configuration \<^verbatim>\<open>Local\<close> hands to \<^verbatim>\<open>New\<close>; fields it does not set are zero.\<close>

definition local_config ::
  "TaskDirectory \<Rightarrow> string \<Rightarrow> Args \<Rightarrow> RegistryTokenResponse \<Rightarrow> Args \<Rightarrow> Config" where
  "local_config dir kind options registry buildEnv =
     \<lparr>Kind = [], Root = DefinitionRootPath dir, Builder = kind, Args = Some options,
      Auth = Some \<lparr>Token = rt_Token registry, Repo = rt_Repo registry\<rparr>,
      Writer = None, BuildEnv = buildEnv\<rparr>"

text \<open>\<^verbatim>\<open>Local\<close>: token, env, kind and options, builder, build, push.\<close>

definition Local ::
  "world \<Rightarrow> TaskDirectory \<Rightarrow> Definition \<Rightarrow> string \<Rightarrow> event list \<times> error option" where
  "Local w dir d taskID =
     (case GetRegistryToken w of
        Inl e \<Rightarrow> ([EvGetRegistryToken], Some (errors_Wrap ''getting registry token'' e))
      | Inr registry \<Rightarrow>
          (case getBuildEnv w d of
             (evs1, Inl e) \<Rightarrow> (EvGetRegistryToken # evs1, Some e)
           | (evs1, Inr buildEnv) \<Rightarrow>
               (case KindAndOptions d of
                  Inl e \<Rightarrow> (EvGetRegistryToken # evs1, Some e)
                | Inr (kind, options) \<Rightarrow>
                    (case New w (local_config dir kind options registry buildEnv) of
                       Inl e \<Rightarrow> (EvGetRegistryToken # evs1, Some (errors_Wrap ''new build'' e))
                     | Inr b \<Rightarrow>
                         (case Build w b taskID ''latest'' of
                            (evs2, Inl e) \<Rightarrow>
                              (EvGetRegistryToken # evs1 @ evs2, Some (errors_Wrap ''build'' e))
                          | (evs2, Inr bo) \<Rightarrow>
                              (case Push w b (Tag bo) of
                                 (evs3, Some e) \<Rightarrow>
                                   (EvGetRegistryToken # evs1 @ evs2 @ evs3,
                                    Some (errors_Wrap ''push'' e))
                               | (evs3, None) \<Rightarrow>
                                   (EvGetRegistryToken # evs1 @ evs2 @ evs3, None)))))))"

section \<open>A concrete world\<close>

text \<open>
  A world to run the model in: a task directory \<^verbatim>\<open>/srv/task\<close> holding \<^verbatim>\<open>main.py\<close> only, a
  registry at \<^verbatim>\<open>gcr.io/acme\<close>, an engine on which every call succeeds and whose listing
  holds the image of task \<^verbatim>\<open>Task123\<close>, and a config service that knows the config
  \<^verbatim>\<open>db/pass\<close> only. The variants below change one answer each.
\<close>

definition demo_world :: world where
  "demo_world =
     \<lparr>unicode_lower = ulower_id,
      stat = (\<lambda>p. p = ''/srv/task/main.py''),
      GetVersion = (\<lambda>n h. Inr (n @ '':'' @ h)),
      shim_template = (\<lambda>e. Inr (''import runpy'' @ [CHR 0x0A] @ ''runpy.run_path('' @ e @ '')'')),
      golang_rest = (\<lambda>r a. Inr ''FROM golang''),
      deno_rest = (\<lambda>r a. Inr ''FROM deno''),
      node_rest = (\<lambda>r a. Inr ''FROM node''),
      docker_rest = (\<lambda>r a. Inr ''FROM scratch''),
      NewTree = None,
      tree_Write = (\<lambda>n c. None),
      tree_Copy = (\<lambda>r. None),
      tree_Archive = None,
      NewClient = None,
      ImageBuild = (\<lambda>bc opts. Inr ''Successfully built''),
      ImageList = Inr [[''busybox:latest''], [''gcr.io/acme/task-task12a:latest'']],
      ImagePush = (\<lambda>t p. Inr ''Pushed''),
      copy_output = (\<lambda>wr body. None),
      GetRegistryToken = Inr \<lparr>rt_Token = ''t0ken'', rt_Repo = ''gcr.io/acme''\<rparr>,
      GetConfig = (\<lambda>req. if cr_Name req = ''db'' \<and> cr_Tag req = ''pass''
                          then Inr ''hunter2'' else Inl (External ''config not found'')),
      ParseName = (\<lambda>s. Inr \<lparr>nt_Name = takeWhile (\<lambda>c. c \<noteq> CHR '':'') s,
                              nt_Tag = drop 1 (dropWhile (\<lambda>c. c \<noteq> CHR '':'') s)\<rparr>)\<rparr>"

definition demo_world_reqs :: world where
  "demo_world_reqs =
     demo_world\<lparr>stat := (\<lambda>p. p = ''/srv/task/main.py'' \<or> p = ''/srv/task/requirements.txt'')\<rparr>"

definition demo_world_no_image :: world where
  "demo_world_no_image = demo_world\<lparr>ImageList := Inr [[''busybox:latest'']]\<rparr>"

definition demo_world_empty_dir :: world where
  "demo_world_empty_dir = demo_world\<lparr>stat := (\<lambda>p. False)\<rparr>"

definition demo_args :: Args where
  "demo_args = [''shim'' \<mapsto> ''true'', ''entrypoint'' \<mapsto> ''main.py'']"

definition demo_args_legacy :: Args where
  "demo_args_legacy = [''shim'' \<mapsto> ''false'', ''entrypoint'' \<mapsto> ''main.py'']"

definition demo_auth :: RegistryAuth where
  "demo_auth = \<lparr>Token = ''t0ken'', Repo = ''gcr.io/acme''\<rparr>"

definition demo_builder :: Builder where
  "demo_builder =
     \<lparr>b_root = ''/srv/task'', b_name = ''python'', b_args = demo_args, b_writer = Stderr,
      b_auth = demo_auth\<rparr>"

definition demo_dir :: TaskDirectory where
  "demo_dir = \<lparr>DefinitionRootPath = ''/srv/task''\<rparr>"

definition demo_env :: "(string \<times> EnvVarValue) list" where
  "demo_env =
     [(''MODE'', \<lparr>ev_Value = Some ''fast'', ev_Config = None\<rparr>),
      (''DB_PASS'', \<lparr>ev_Value = None, ev_Config = Some ''db:pass''\<rparr>)]"

definition demo_env_broken :: "(string \<times> EnvVarValue) list" where
  "demo_env_broken =
     [(''MODE'', \<lparr>ev_Value = Some ''fast'', ev_Config = None\<rparr>),
      (''API_KEY'', \<lparr>ev_Value = None, ev_Config = Some ''api:key''\<rparr>),
      (''DB_PASS'', \<lparr>ev_Value = None, ev_Config = Some ''db:pass''\<rparr>)]"

definition demo_def :: Definition where
  "demo_def = \<lparr>Env = demo_env, KindAndOptions = Inr (''python'', demo_args)\<rparr>"

definition demo_def_broken :: Definition where
  "demo_def_broken = \<lparr>Env = demo_env_broken, KindAndOptions = Inr (''python'', demo_args)\<rparr>"

section \<open>Properties of sanitization\<close>







lemma sanitize_Task123: "sanitizeTaskID ulower ''Task123'' = Inr ''task12a''"
  by code_simp


section \<open>Facts about the registry host\<close>








section \<open>Facts about the image search\<close>

lemma find_tag_Some: "find_tag tag ts = Some t \<Longrightarrow> t = tag \<and> tag \<in> set ts"
  by (induction ts) (auto split: if_splits)

lemma find_tag_None: "find_tag tag ts = None \<longleftrightarrow> tag \<notin> set ts"
  by (induction ts) auto

lemma search_images_Some:
  "search_images tag images = Some t \<Longrightarrow> t = tag \<and> (\<exists>img\<in>set images. tag \<in> set img)"
  by (induction images) (auto split: option.splits dest: find_tag_Some)

lemma search_images_None:
  "search_images tag images = None \<longleftrightarrow> (\<forall>img\<in>set images. tag \<notin> set img)"
  by (induction images) (auto split: option.splits simp add: find_tag_None dest: find_tag_Some)

section \<open>Facts about the log of a build\<close>

lemma Build_trace_events:
  assumes "ev \<in> set (fst (Build w b taskID version))"
  shows "ev = EvSynthesize \<lparr>df_Builder = b_name b, df_Root = b_root b, df_Args = b_args b\<rparr>
       \<or> ev = EvImageList
       \<or> (\<exists>sid buf. sanitizeTaskID (unicode_lower w) taskID = Inr sid
             \<and> BuildDockerfile w \<lparr>df_Builder = b_name b, df_Root = b_root b, df_Args = b_args b\<rparr>
                 = Inr buf
             \<and> ev = EvImageBuild \<lparr>a_dockerfile = buf, a_root = b_root b\<rparr>
                      (build_options b (compose_tag (Repo (b_auth b)) sid version)))"
  using assms
  by (auto simp add: Build_def build_on_engine_def Let_def
      split: sum.splits option.splits prod.splits)

lemma Build_no_push: "ev \<in> set (fst (Build w b taskID version)) \<Longrightarrow> \<not> is_push ev"
  by (auto dest: Build_trace_events)

lemma Build_ok:
  assumes "snd (Build w b taskID version) = Inr out"
  shows "\<exists>sid images. sanitizeTaskID (unicode_lower w) taskID = Inr sid
           \<and> ImageList w = Inr images
           \<and> search_images (compose_tag (Repo (b_auth b)) sid version) images = Some (Tag out)"
  using assms
  by (auto simp add: Build_def build_on_engine_def Let_def
      split: sum.splits option.splits prod.splits)

lemma Build_synthesis_failed:
  assumes "BuildDockerfile w \<lparr>df_Builder = b_name b, df_Root = b_root b, df_Args = b_args b\<rparr> = Inl e"
  shows "(\<forall>ev\<in>set (fst (Build w b taskID version)). \<not> is_engine_call ev)
       \<and> (\<exists>e'. snd (Build w b taskID version) = Inl e')"
  using assms
  by (auto simp add: Build_def Let_def split: sum.splits option.splits)

lemma Push_trace: "fst (Push w b tag) = [EvImagePush tag (Base64URL_JSON (registryAuth b))]"
  by (simp add: Push_def Let_def split: sum.splits)

section \<open>Facts about env resolution and the orchestrator\<close>

lemma getBuildEnv_loop_events:
  "ev \<in> set (fst (getBuildEnv_loop w env m lg)) \<Longrightarrow>
   ev \<in> set lg \<or> (\<exists>req. ev = EvGetConfig req \<and> cr_ShowSecret req)"
proof (induction w env m lg rule: getBuildEnv_loop.induct)
  case (1 w buildEnv lg)
  then show ?case by simp
next
  case (2 w k v rest buildEnv lg)
  then show ?case
    by (fastforce split: option.splits sum.splits)
qed

lemma getBuildEnv_events:
  "ev \<in> set (fst (getBuildEnv w d)) \<Longrightarrow> \<exists>req. ev = EvGetConfig req \<and> cr_ShowSecret req"
  using getBuildEnv_loop_events [of ev w "Env d" Map.empty "[]"]
  by (simp add: getBuildEnv_def)

lemma getBuildEnv_no_build_step:
  "ev \<in> set (fst (getBuildEnv w d)) \<Longrightarrow> \<not> is_build_step ev"
  by (auto dest: getBuildEnv_events)

lemma Local_trace:
  assumes "ev \<in> set (fst (Local w dir d taskID))"
  shows "ev = EvGetRegistryToken
       \<or> ev \<in> set (fst (getBuildEnv w d))
       \<or> (\<exists>registry buildEnv kind options b.
             GetRegistryToken w = Inr registry
           \<and> snd (getBuildEnv w d) = Inr buildEnv
           \<and> KindAndOptions d = Inr (kind, options)
           \<and> New w (local_config dir kind options registry buildEnv) = Inr b
           \<and> (ev \<in> set (fst (Build w b taskID ''latest''))
              \<or> (\<exists>bo. snd (Build w b taskID ''latest'') = Inr bo
                     \<and> ev \<in> set (fst (Push w b (Tag bo))))))"
  using assms
  by (auto simp add: Local_def split: sum.splits option.splits prod.splits)

lemma New_auth:
  "New w c = Inr b \<Longrightarrow> Auth c = Some (b_auth b) \<and> b_root b = Root c \<and> filepath_IsAbs (Root c)"
  by (auto simp add: New_def Let_def split: if_splits option.splits)

lemma Local_push:
  assumes "EvImagePush t p \<in> set (fst (Local w dir d taskID))"
  shows "\<exists>registry sid images b.
           GetRegistryToken w = Inr registry
         \<and> b_auth b = \<lparr>Token = rt_Token registry, Repo = rt_Repo registry\<rparr>
         \<and> sanitizeTaskID (unicode_lower w) taskID = Inr sid
         \<and> t = compose_tag (rt_Repo registry) sid ''latest''
         \<and> ImageList w = Inr images
         \<and> (\<exists>img\<in>set images. t \<in> set img)
         \<and> p = Base64URL_JSON (registryAuth b)"
proof -
  from Local_trace [OF assms] consider
      (env) "EvImagePush t p \<in> set (fst (getBuildEnv w d))"
    | (run) registry buildEnv kind options b where
        "GetRegistryToken w = Inr registry"
        "New w (local_config dir kind options registry buildEnv) = Inr b"
        "EvImagePush t p \<in> set (fst (Build w b taskID ''latest''))
         \<or> (\<exists>bo. snd (Build w b taskID ''latest'') = Inr bo
                \<and> EvImagePush t p \<in> set (fst (Push w b (Tag bo))))"
    by blast
  then show ?thesis
  proof cases
    case env
    then show ?thesis by (auto dest: getBuildEnv_events)
  next
    case run
    from run(2) have auth: "b_auth b = \<lparr>Token = rt_Token registry, Repo = rt_Repo registry\<rparr>"
      by (auto dest: New_auth simp add: local_config_def)
    from run(3) obtain bo where
      bo: "snd (Build w b taskID ''latest'') = Inr bo"
      and ev: "EvImagePush t p \<in> set (fst (Push w b (Tag bo)))"
      by (auto dest: Build_no_push)
    from ev have tp: "t = Tag bo" "p = Base64URL_JSON (registryAuth b)"
      by (simp_all add: Push_trace)
    from Build_ok [OF bo] obtain sid images where
      sid: "sanitizeTaskID (unicode_lower w) taskID = Inr sid"
      and images: "ImageList w = Inr images"
      and found: "search_images (compose_tag (Repo (b_auth b)) sid ''latest'') images = Some (Tag bo)"
      by blast
    from search_images_Some [OF found] auth tp(1)
    have "t = compose_tag (rt_Repo registry) sid ''latest''" "\<exists>img\<in>set images. t \<in> set img"
      by simp_all
    with run(1) auth sid images tp(2) show ?thesis by blast
  qed
qed

lemma getBuildEnv_loop_fails:
  assumes "\<forall>kv\<in>set pre. resolution_error w (snd kv) = None"
    and "resolution_error w v = Some e"
  shows "snd (getBuildEnv_loop w (pre @ (k, v) # post) m lg) = Inl e"
  using assms
proof (induction pre arbitrary: m lg)
  case Nil
  then show ?case
    by (auto simp add: resolution_error_def split: option.splits sum.splits)
next
  case (Cons kv pre)
  obtain k' v' where kv: "kv = (k', v')" by (cases kv)
  from Cons.prems(1) kv have ok: "resolution_error w v' = None"
    and rest: "\<forall>kv\<in>set pre. resolution_error w (snd kv) = None"
    by simp_all
  from ok show ?case
    by (auto simp add: kv resolution_error_def Cons.IH [OF rest Cons.prems(2)]
        split: option.splits sum.splits)
qed

lemma getBuildEnv_loop_succeeds:
  assumes "\<forall>kv\<in>set env. resolution_error w (snd kv) = None"
  shows "\<exists>m'. snd (getBuildEnv_loop w env m lg) = Inr m'"
  using assms
proof (induction env arbitrary: m lg)
  case Nil
  then show ?case by simp
next
  case (Cons kv env)
  obtain k v where kv: "kv = (k, v)" by (cases kv)
  from Cons.prems kv have ok: "resolution_error w v = None"
    and rest: "\<forall>kv\<in>set env. resolution_error w (snd kv) = None"
    by simp_all
  from ok show ?case
    by (auto simp add: kv resolution_error_def Cons.IH [OF rest]
        split: option.splits sum.splits)
qed

text \<open>What a successful run of the loop has done to the map, entry by entry.\<close>

lemma getBuildEnv_loop_step:
  assumes "snd (getBuildEnv_loop w ((k0, v0) # rest) m lg) = Inr m'"
  shows "\<exists>m1 lg1. snd (getBuildEnv_loop w rest m1 lg1) = Inr m'
           \<and> (\<forall>k. k \<noteq> k0 \<longrightarrow> m1 k = m k)
           \<and> (\<forall>lit. ev_Value v0 = Some lit \<longrightarrow> m1 k0 = Some lit)
           \<and> (\<forall>c. ev_Value v0 = None \<longrightarrow> ev_Config v0 = Some c \<longrightarrow>
                 (\<exists>nt val. ParseName w c = Inr nt
                    \<and> GetConfig w \<lparr>cr_Name = nt_Name nt, cr_Tag = nt_Tag nt,
                                    cr_ShowSecret = True\<rparr> = Inr val
                    \<and> m1 k0 = Some val))"
proof (cases "ev_Value v0")
  case (Some lit)
  with assms have "snd (getBuildEnv_loop w rest (m(k0 \<mapsto> lit)) lg) = Inr m'" by simp
  moreover have "\<forall>k. k \<noteq> k0 \<longrightarrow> (m(k0 \<mapsto> lit)) k = m k" by simp
  moreover have "(m(k0 \<mapsto> lit)) k0 = Some lit" by simp
  ultimately show ?thesis using Some by (intro exI [of _ "m(k0 \<mapsto> lit)"] exI [of _ lg]) simp
next
  case None
  note noval = None
  show ?thesis
  proof (cases "ev_Config v0")
    case None
    with assms noval have "snd (getBuildEnv_loop w rest m lg) = Inr m'" by simp
    with None noval show ?thesis by (intro exI [of _ m] exI [of _ lg]) simp
  next
    case (Some c)
    with assms noval obtain nt val where
      nt: "ParseName w c = Inr nt"
      and val: "GetConfig w \<lparr>cr_Name = nt_Name nt, cr_Tag = nt_Tag nt, cr_ShowSecret = True\<rparr>
                = Inr val"
      and run: "snd (getBuildEnv_loop w rest (m(k0 \<mapsto> val))
                  (lg @ [EvGetConfig \<lparr>cr_Name = nt_Name nt, cr_Tag = nt_Tag nt,
                                      cr_ShowSecret = True\<rparr>])) = Inr m'"
      by (auto split: sum.splits)
    from run nt val Some noval show ?thesis
      by (intro exI [of _ "m(k0 \<mapsto> val)"]
          exI [of _ "lg @ [EvGetConfig \<lparr>cr_Name = nt_Name nt, cr_Tag = nt_Tag nt,
                                         cr_ShowSecret = True\<rparr>]"]) simp
  qed
qed

lemma getBuildEnv_loop_untouched:
  "snd (getBuildEnv_loop w env m lg) = Inr m' \<Longrightarrow> k \<notin> fst ` set env \<Longrightarrow> m' k = m k"
proof (induction env arbitrary: m lg)
  case Nil
  then show ?case by simp
next
  case (Cons kv env)
  obtain k0 v0 where kv: "kv = (k0, v0)" by (cases kv)
  from Cons.prems(2) kv have ne: "k \<noteq> k0" and fresh: "k \<notin> fst ` set env" by auto
  from getBuildEnv_loop_step [of w k0 v0 env m lg m'] Cons.prems(1) kv
  obtain m1 lg1 where run: "snd (getBuildEnv_loop w env m1 lg1) = Inr m'"
    and same: "\<forall>k. k \<noteq> k0 \<longrightarrow> m1 k = m k"
    by blast
  from Cons.IH [OF run fresh] same ne show ?case by simp
qed

lemma getBuildEnv_loop_literal:
  "distinct (map fst env) \<Longrightarrow> snd (getBuildEnv_loop w env m lg) = Inr m' \<Longrightarrow>
   (k, v) \<in> set env \<Longrightarrow> ev_Value v = Some lit \<Longrightarrow> m' k = Some lit"
proof (induction env arbitrary: m lg)
  case Nil
  then show ?case by simp
next
  case (Cons kv env)
  obtain k0 v0 where kv: "kv = (k0, v0)" by (cases kv)
  from Cons.prems(1) kv have fresh: "k0 \<notin> fst ` set env" and dist: "distinct (map fst env)"
    by simp_all
  from getBuildEnv_loop_step [of w k0 v0 env m lg m'] Cons.prems(2) kv
  obtain m1 lg1 where run: "snd (getBuildEnv_loop w env m1 lg1) = Inr m'"
    and lit: "\<forall>lit. ev_Value v0 = Some lit \<longrightarrow> m1 k0 = Some lit"
    by blast
  show ?case
  proof (cases "(k, v) = (k0, v0)")
    case True
    with lit Cons.prems(4) have "m1 k = Some lit" by simp
    with getBuildEnv_loop_untouched [OF run fresh] True show ?thesis by simp
  next
    case False
    with Cons.prems(3) kv have "(k, v) \<in> set env" by auto
    from Cons.IH [OF dist run this Cons.prems(4)] show ?thesis .
  qed
qed

lemma getBuildEnv_loop_reference:
  "distinct (map fst env) \<Longrightarrow> snd (getBuildEnv_loop w env m lg) = Inr m' \<Longrightarrow>
   (k, v) \<in> set env \<Longrightarrow> ev_Value v = None \<Longrightarrow> ev_Config v = Some c \<Longrightarrow>
   \<exists>nt val. ParseName w c = Inr nt
      \<and> GetConfig w \<lparr>cr_Name = nt_Name nt, cr_Tag = nt_Tag nt, cr_ShowSecret = True\<rparr> = Inr val
      \<and> m' k = Some val"
proof (induction env arbitrary: m lg)
  case Nil
  then show ?case by simp
next
  case (Cons kv env)
  obtain k0 v0 where kv: "kv = (k0, v0)" by (cases kv)
  from Cons.prems(1) kv have fresh: "k0 \<notin> fst ` set env" and dist: "distinct (map fst env)"
    by simp_all
  from getBuildEnv_loop_step [of w k0 v0 env m lg m'] Cons.prems(2) kv
  obtain m1 lg1 where run: "snd (getBuildEnv_loop w env m1 lg1) = Inr m'"
    and ref: "\<forall>c. ev_Value v0 = None \<longrightarrow> ev_Config v0 = Some c \<longrightarrow>
                 (\<exists>nt val. ParseName w c = Inr nt
                    \<and> GetConfig w \<lparr>cr_Name = nt_Name nt, cr_Tag = nt_Tag nt,
                                    cr_ShowSecret = True\<rparr> = Inr val
                    \<and> m1 k0 = Some val)"
    by blast
  show ?case
  proof (cases "(k, v) = (k0, v0)")
    case True
    with ref Cons.prems(4,5) obtain nt val where
      "ParseName w c = Inr nt"
      "GetConfig w \<lparr>cr_Name = nt_Name nt, cr_Tag = nt_Tag nt, cr_ShowSecret = True\<rparr> = Inr val"
      "m1 k = Some val"
      by auto
    with getBuildEnv_loop_untouched [OF run fresh] True show ?thesis by auto
  next
    case False
    with Cons.prems(3) kv have "(k, v) \<in> set env" by auto
    from Cons.IH [OF dist run this Cons.prems(4,5)] show ?thesis .
  qed
qed

lemma Local_env_failed:
  assumes "snd (getBuildEnv w d) = Inl e"
  shows "(\<forall>ev\<in>set (fst (Local w dir d taskID)). \<not> is_build_step ev)
       \<and> (\<exists>e'. snd (Local w dir d taskID) = Some e')
       \<and> (\<forall>registry. GetRegistryToken w = Inr registry \<longrightarrow>
             snd (Local w dir d taskID) = Some e)"
proof (cases "getBuildEnv w d")
  case (Pair evs1 r)
  with assms have r: "r = Inl e" by simp
  have "\<not> is_build_step ev" if "ev \<in> set evs1" for ev
  proof -
    from that Pair have "ev \<in> set (fst (getBuildEnv w d))" by simp
    then show ?thesis by (rule getBuildEnv_no_build_step)
  qed
  then have "\<forall>ev\<in>set evs1. \<not> is_build_step ev" by blast
  with Pair r show ?thesis
    by (auto simp add: Local_def split: sum.splits)
qed

lemma Local_build_failed:
  assumes "GetRegistryToken w = Inr registry"
    and "snd (getBuildEnv w d) = Inr buildEnv"
    and "KindAndOptions d = Inr (kind, options)"
    and "New w (local_config dir kind options registry buildEnv) = Inr b"
    and "snd (Build w b taskID ''latest'') = Inl e"
  shows "snd (Local w dir d taskID) = Some (errors_Wrap ''build'' e)
       \<and> (\<forall>ev\<in>set (fst (Local w dir d taskID)). \<not> is_push ev)"
proof (cases "getBuildEnv w d")
  case env: (Pair evs1 r1)
  with assms(2) have r1: "r1 = Inr buildEnv" by simp
  have "\<not> is_push ev" if "ev \<in> set evs1" for ev
  proof -
    from that env have "ev \<in> set (fst (getBuildEnv w d))" by simp
    from getBuildEnv_events [OF this] show ?thesis by auto
  qed
  then have no1: "\<forall>ev\<in>set evs1. \<not> is_push ev" by blast
  show ?thesis
  proof (cases "Build w b taskID ''latest''")
    case (Pair evs2 r2)
    with assms(5) have r2: "r2 = Inl e" by simp
    have "\<not> is_push ev" if "ev \<in> set evs2" for ev
    proof -
      from that Pair have "ev \<in> set (fst (Build w b taskID ''latest''))" by simp
      then show ?thesis by (rule Build_no_push)
    qed
    then have no2: "\<forall>ev\<in>set evs2. \<not> is_push ev" by blast
    from env r1 Pair r2 assms(1,3,4) no1 no2 show ?thesis
      by (auto simp add: Local_def)
  qed
qed

lemma Build_not_found:
  assumes "EvImageBuild bc opts \<in> set (fst (Build w b taskID version))"
    and "Tags opts = [tag]"
    and "ImageBuild w bc opts = Inr body"
    and "copy_output w (b_writer b) body = None"
    and "ImageList w = Inr images"
    and "\<forall>img\<in>set images. tag \<notin> set img"
  shows "snd (Build w b taskID version) = Inl (ImageNotFound tag)"
proof -
  from assms(6) have none: "search_images tag images = None"
    by (simp add: search_images_None)
  from assms(1-5) none show ?thesis
    by (auto simp add: Build_def build_on_engine_def build_options_def Let_def
        split: sum.splits option.splits prod.splits)
qed

lemma Build_found:
  assumes "snd (Build w b taskID version) = Inr out"
  shows "\<exists>sid images. sanitizeTaskID (unicode_lower w) taskID = Inr sid
           \<and> Tag out = compose_tag (Repo (b_auth b)) sid version
           \<and> ImageList w = Inr images
           \<and> (\<exists>img\<in>set images. Tag out \<in> set img)"
proof -
  from Build_ok [OF assms] obtain sid images where
    sid: "sanitizeTaskID (unicode_lower w) taskID = Inr sid"
    and images: "ImageList w = Inr images"
    and found: "search_images (compose_tag (Repo (b_auth b)) sid version) images = Some (Tag out)"
    by blast
  from search_images_Some [OF found]
  have "Tag out = compose_tag (Repo (b_auth b)) sid version"
    "\<exists>img\<in>set images. Tag out \<in> set img"
    by simp_all
  with sid images show ?thesis by blast
qed

section \<open>Facts about Dockerfile synthesis\<close>

lemma generator_from_spec_missing:
  "\<not> stat w (filepath_Join rt (lookup ar ''entrypoint'')) \<Longrightarrow>
   generator_from_spec w rest rt ar
     = Inl (FileRequired (path_Base (filepath_Join rt (lookup ar ''entrypoint''))))"
  by (simp add: generator_from_spec_def)

lemma python_missing:
  "\<not> stat w (filepath_Join rt (lookup ar ''entrypoint'')) \<Longrightarrow>
   python w rt ar = Inl (FileRequired (path_Base (filepath_Join rt (lookup ar ''entrypoint''))))"
  by (simp add: python_def pythonLegacy_def fsx_AssertExistsAll_def Let_def)

lemma BuildDockerfile_unknown:
  "df_Builder c \<notin> {''go'', ''deno'', ''python'', ''node'', ''docker''} \<Longrightarrow>
   BuildDockerfile w c = Inl (UnknownBuilder (df_Builder c))"
  by (simp add: BuildDockerfile_def)

lemma BuildDockerfile_missing:
  assumes "df_Builder c \<in> {''go'', ''deno'', ''python'', ''node'', ''docker''}"
    and "\<not> stat w (filepath_Join (df_Root c) (lookup (df_Args c) ''entrypoint''))"
  shows "BuildDockerfile w c
     = Inl (FileRequired
              (path_Base (filepath_Join (df_Root c) (lookup (df_Args c) ''entrypoint''))))"
  using assms
  by (auto simp add: BuildDockerfile_def golang_def deno_def node_def docker_def
      generator_from_spec_missing python_missing)

section \<open>The concrete world, evaluated\<close>

lemma demo_main_path: "filepath_Join ''/srv/task'' ''main.py'' = ''/srv/task/main.py''"
  by code_simp

lemma demo_reqs_path:
  "filepath_Join ''/srv/task'' ''requirements.txt'' = ''/srv/task/requirements.txt''"
  by code_simp

lemma demo_entrypoint: "lookup demo_args ''entrypoint'' = ''main.py''"
  by (simp add: lookup_def demo_args_def)

lemma demo_shim: "lookup demo_args ''shim'' = ''true''"
  by (simp add: lookup_def demo_args_def)

lemma demo_sanitize: "sanitizeTaskID (unicode_lower demo_world) ''Task123'' = Inr ''task12a''"
  by (simp add: sanitize_Task123)

lemma demo_tag: "compose_tag ''gcr.io/acme'' ''task12a'' ''latest'' = ''gcr.io/acme/task-task12a:latest''"
  by (simp add: compose_tag_def)

lemma demo_builder_fields:
  "b_root demo_builder = ''/srv/task''" "b_name demo_builder = ''python''"
  "b_args demo_builder = demo_args" "b_writer demo_builder = Stderr"
  "b_auth demo_builder = demo_auth" "Repo demo_auth = ''gcr.io/acme''"
  "Token demo_auth = ''t0ken''"
  by (simp_all add: demo_builder_def demo_auth_def)

lemma demo_dockerfile:
  "\<exists>buf. BuildDockerfile demo_world
            \<lparr>df_Builder = ''python'', df_Root = ''/srv/task'', df_Args = demo_args\<rparr> = Inr buf"
  by (simp add: BuildDockerfile_def python_def demo_shim demo_entrypoint demo_main_path
      fsx_AssertExistsAll_def PythonShim_def demo_world_def Let_def)

lemma demo_Build:
  "\<exists>buf. Build demo_world demo_builder ''Task123'' ''latest'' =
     ([EvSynthesize \<lparr>df_Builder = ''python'', df_Root = ''/srv/task'', df_Args = demo_args\<rparr>,
       EvImageBuild \<lparr>a_dockerfile = buf, a_root = ''/srv/task''\<rparr>
         (build_options demo_builder ''gcr.io/acme/task-task12a:latest''),
       EvImageList],
      Inr \<lparr>Tag = ''gcr.io/acme/task-task12a:latest''\<rparr>)"
proof -
  from demo_dockerfile obtain buf where
    buf: "BuildDockerfile demo_world
            \<lparr>df_Builder = ''python'', df_Root = ''/srv/task'', df_Args = demo_args\<rparr> = Inr buf"
    by blast
  have world: "NewTree demo_world = None" "tree_Write demo_world ''Dockerfile'' buf = None"
    "tree_Copy demo_world ''/srv/task'' = None" "tree_Archive demo_world = None"
    "ImageBuild demo_world \<lparr>a_dockerfile = buf, a_root = ''/srv/task''\<rparr>
       (build_options demo_builder ''gcr.io/acme/task-task12a:latest'') = Inr ''Successfully built''"
    "copy_output demo_world Stderr ''Successfully built'' = None"
    "ImageList demo_world = Inr [[''busybox:latest''], [''gcr.io/acme/task-task12a:latest'']]"
    by (simp_all add: demo_world_def)
  have "Build demo_world demo_builder ''Task123'' ''latest'' =
     ([EvSynthesize \<lparr>df_Builder = ''python'', df_Root = ''/srv/task'', df_Args = demo_args\<rparr>,
       EvImageBuild \<lparr>a_dockerfile = buf, a_root = ''/srv/task''\<rparr>
         (build_options demo_builder ''gcr.io/acme/task-task12a:latest''),
       EvImageList],
      Inr \<lparr>Tag = ''gcr.io/acme/task-task12a:latest''\<rparr>)"
    by (simp add: Build_def build_on_engine_def demo_sanitize demo_builder_fields
        demo_tag buf world Let_def)
  then show ?thesis by blast
qed

lemma demo_Build_no_image:
  "\<exists>buf. Build demo_world_no_image demo_builder ''Task123'' ''latest'' =
     ([EvSynthesize \<lparr>df_Builder = ''python'', df_Root = ''/srv/task'', df_Args = demo_args\<rparr>,
       EvImageBuild \<lparr>a_dockerfile = buf, a_root = ''/srv/task''\<rparr>
         (build_options demo_builder ''gcr.io/acme/task-task12a:latest''),
       EvImageList],
      Inl (ImageNotFound ''gcr.io/acme/task-task12a:latest''))"
proof -
  have "\<exists>buf. BuildDockerfile demo_world_no_image
            \<lparr>df_Builder = ''python'', df_Root = ''/srv/task'', df_Args = demo_args\<rparr> = Inr buf"
    by (simp add: BuildDockerfile_def python_def demo_shim demo_entrypoint demo_main_path
        fsx_AssertExistsAll_def PythonShim_def demo_world_no_image_def demo_world_def Let_def)
  then obtain buf where
    buf: "BuildDockerfile demo_world_no_image
            \<lparr>df_Builder = ''python'', df_Root = ''/srv/task'', df_Args = demo_args\<rparr> = Inr buf"
    by blast
  have world: "NewTree demo_world_no_image = None"
    "tree_Write demo_world_no_image ''Dockerfile'' buf = None"
    "tree_Copy demo_world_no_image ''/srv/task'' = None"
    "tree_Archive demo_world_no_image = None"
    "ImageBuild demo_world_no_image \<lparr>a_dockerfile = buf, a_root = ''/srv/task''\<rparr>
       (build_options demo_builder ''gcr.io/acme/task-task12a:latest'') = Inr ''Successfully built''"
    "copy_output demo_world_no_image Stderr ''Successfully built'' = None"
    "ImageList demo_world_no_image = Inr [[''busybox:latest'']]"
    "unicode_lower demo_world_no_image = ulower_id"
    by (simp_all add: demo_world_no_image_def demo_world_def)
  have "Build demo_world_no_image demo_builder ''Task123'' ''latest'' =
     ([EvSynthesize \<lparr>df_Builder = ''python'', df_Root = ''/srv/task'', df_Args = demo_args\<rparr>,
       EvImageBuild \<lparr>a_dockerfile = buf, a_root = ''/srv/task''\<rparr>
         (build_options demo_builder ''gcr.io/acme/task-task12a:latest''),
       EvImageList],
      Inl (ImageNotFound ''gcr.io/acme/task-task12a:latest''))"
    by (simp add: Build_def build_on_engine_def sanitize_Task123 demo_builder_fields
        demo_tag buf world Let_def)
  then show ?thesis by blast
qed

lemma demo_getBuildEnv:
  "getBuildEnv demo_world demo_def =
     ([EvGetConfig \<lparr>cr_Name = ''db'', cr_Tag = ''pass'', cr_ShowSecret = True\<rparr>],
      Inr [''MODE'' \<mapsto> ''fast'', ''DB_PASS'' \<mapsto> ''hunter2''])"
  by (simp add: getBuildEnv_def demo_def_def demo_env_def demo_world_def)

lemma demo_getBuildEnv_no_image:
  "getBuildEnv demo_world_no_image demo_def =
     ([EvGetConfig \<lparr>cr_Name = ''db'', cr_Tag = ''pass'', cr_ShowSecret = True\<rparr>],
      Inr [''MODE'' \<mapsto> ''fast'', ''DB_PASS'' \<mapsto> ''hunter2''])"
  by (simp add: getBuildEnv_def demo_def_def demo_env_def demo_world_no_image_def demo_world_def)

lemma demo_New:
  "New demo_world_no_image
     (local_config demo_dir ''python'' demo_args
        \<lparr>rt_Token = ''t0ken'', rt_Repo = ''gcr.io/acme''\<rparr> env) = Inr demo_builder"
  by (simp add: New_def local_config_def demo_dir_def filepath_IsAbs_def demo_builder_def
      demo_auth_def demo_world_no_image_def demo_world_def)

lemma demo_resolution_errors:
  "resolution_error demo_world \<lparr>ev_Value = Some ''fast'', ev_Config = None\<rparr> = None"
  "resolution_error demo_world \<lparr>ev_Value = None, ev_Config = Some ''api:key''\<rparr>
     = Some (External ''config not found'')"
  by (simp_all add: resolution_error_def demo_world_def)

lemma demo_base: "path_Base ''/srv/task/main.py'' = ''main.py''"
  by code_simp

section \<open>Claims about sanitization\<close>




text \<open>
  C2. The claim: for the empty task ID sanitization fails with an InvalidInput error and
  never indexes out of bounds. The code: for the empty task ID the index expression is
  evaluated at \<open>-1\<close> on a string of length \<open>0\<close>, the run-time panic.
\<close>

theorem sanitizeTaskID_empty_panics:
  "sanitizeTaskID ulower [] = Inl (IndexOutOfRange (- 1) 0)"
  by (simp add: sanitizeTaskID_def strings_ToLower_def isASCII_def)

section \<open>Claims about the builder and the registry host\<close>

text \<open>
  C5. \<^verbatim>\<open>New\<close> fails for every root path that is not absolute and for every nil registry
  auth, and a run of \<^verbatim>\<open>Local\<close> whose root is not absolute starts no synthesis and issues
  no engine call. When \<^verbatim>\<open>New\<close> succeeds, an empty builder name has become \<^verbatim>\<open>manual\<close>, a
  nil args map the empty map and a nil writer the process error stream; and it does
  succeed on an absolute root with an auth when the engine client can be made.
\<close>

theorem New_validates_and_defaults:
  "(\<not> filepath_IsAbs (Root c) \<longrightarrow> New w c = Inl (NotAbsolute (Root c)))
   \<and> (Auth c = None \<longrightarrow>
        New w c = Inl (if filepath_IsAbs (Root c) then AuthRequired else NotAbsolute (Root c)))
   \<and> (\<not> filepath_IsAbs (DefinitionRootPath dir) \<longrightarrow>
        (\<forall>ev\<in>set (fst (Local w dir d taskID)). \<not> is_build_step ev))
   \<and> (\<forall>b. New w c = Inr b \<longrightarrow>
          b_name b = (if Builder c = [] then ''manual'' else Builder c)
        \<and> b_args b = (case Args c of None \<Rightarrow> Map.empty | Some a \<Rightarrow> a)
        \<and> b_writer b = (case Writer c of None \<Rightarrow> Stderr | Some x \<Rightarrow> x))
   \<and> (filepath_IsAbs (Root c) \<longrightarrow> Auth c \<noteq> None \<longrightarrow> NewClient w = None \<longrightarrow>
        (\<exists>b. New w c = Inr b))"
proof -
  have local: "\<not> is_build_step ev"
    if rel: "\<not> filepath_IsAbs (DefinitionRootPath dir)"
      and ev: "ev \<in> set (fst (Local w dir d taskID))" for ev
    using Local_trace [OF ev] rel
    by (auto dest!: getBuildEnv_no_build_step New_auth simp add: local_config_def)
  have checks: "(\<not> filepath_IsAbs (Root c) \<longrightarrow> New w c = Inl (NotAbsolute (Root c)))
     \<and> (Auth c = None \<longrightarrow>
          New w c = Inl (if filepath_IsAbs (Root c) then AuthRequired else NotAbsolute (Root c)))"
    by (simp add: New_def Let_def)
  have defaults: "\<forall>b. New w c = Inr b \<longrightarrow>
          b_name b = (if Builder c = [] then ''manual'' else Builder c)
        \<and> b_args b = (case Args c of None \<Rightarrow> Map.empty | Some a \<Rightarrow> a)
        \<and> b_writer b = (case Writer c of None \<Rightarrow> Stderr | Some x \<Rightarrow> x)"
    by (auto simp add: New_def Let_def split: if_splits option.splits)
  have succeeds: "filepath_IsAbs (Root c) \<longrightarrow> Auth c \<noteq> None \<longrightarrow> NewClient w = None \<longrightarrow>
        (\<exists>b. New w c = Inr b)"
    by (auto simp add: New_def Let_def)
  from local checks defaults succeeds show ?thesis by blast
qed

theorem New_validates_and_defaults_witness:
  "\<not> filepath_IsAbs ''srv/task''
   \<and> New demo_world
        \<lparr>Kind = ''local'', Root = ''srv/task'', Builder = ''python'', Args = None,
         Auth = Some demo_auth, Writer = None, BuildEnv = Map.empty\<rparr>
       = Inl (NotAbsolute ''srv/task'')
   \<and> New demo_world
        \<lparr>Kind = ''local'', Root = ''/srv/task'', Builder = ''python'', Args = None,
         Auth = None, Writer = None, BuildEnv = Map.empty\<rparr>
       = Inl AuthRequired
   \<and> filter is_build_step
        (fst (Local demo_world \<lparr>DefinitionRootPath = ''srv/task''\<rparr> demo_def ''Task123'')) = []
   \<and> New demo_world
        \<lparr>Kind = ''local'', Root = ''/srv/task'', Builder = [], Args = None,
         Auth = Some demo_auth, Writer = None, BuildEnv = Map.empty\<rparr>
       = Inr \<lparr>b_root = ''/srv/task'', b_name = ''manual'', b_args = Map.empty,
              b_writer = Stderr, b_auth = demo_auth\<rparr>"
  using
    New_validates_and_defaults [of
      "\<lparr>Kind = ''local'', Root = ''srv/task'', Builder = ''python'', Args = None,
        Auth = Some demo_auth, Writer = None, BuildEnv = Map.empty\<rparr>"
      demo_world "\<lparr>DefinitionRootPath = ''srv/task''\<rparr>" demo_def "''Task123''"]
    New_validates_and_defaults [of
      "\<lparr>Kind = ''local'', Root = ''/srv/task'', Builder = ''python'', Args = None,
        Auth = None, Writer = None, BuildEnv = Map.empty\<rparr>"
      demo_world demo_dir demo_def "''Task123''"]
  by (simp add: filepath_IsAbs_def New_def demo_world_def filter_empty_conv)



section \<open>Claims about the build\<close>

text \<open>
  C3. Whatever build request \<^verbatim>\<open>Build\<close> submits to the engine, its tag is the repository
  reference, \<^verbatim>\<open>/task-\<close>, the sanitized task ID, \<^verbatim>\<open>:\<close> and the version, exactly; the tag of
  a build output it returns is the same; and once the ID is sanitized and the context is
  staged, the request with that tag is submitted.
\<close>

theorem Build_composes_tag:
  "(\<forall>bc opts. EvImageBuild bc opts \<in> set (fst (Build w b taskID version)) \<longrightarrow>
      (\<exists>sid. sanitizeTaskID (unicode_lower w) taskID = Inr sid
            \<and> Tags opts = [Repo (b_auth b) @ ''/task-'' @ sid @ '':'' @ version]))
   \<and> (\<forall>out. snd (Build w b taskID version) = Inr out \<longrightarrow>
      (\<exists>sid. sanitizeTaskID (unicode_lower w) taskID = Inr sid
            \<and> Tag out = Repo (b_auth b) @ ''/task-'' @ sid @ '':'' @ version))
   \<and> (\<forall>sid buf. sanitizeTaskID (unicode_lower w) taskID = Inr sid \<longrightarrow>
        NewTree w = None \<longrightarrow>
        BuildDockerfile w \<lparr>df_Builder = b_name b, df_Root = b_root b, df_Args = b_args b\<rparr>
          = Inr buf \<longrightarrow>
        tree_Write w ''Dockerfile'' buf = None \<longrightarrow>
        tree_Copy w (b_root b) = None \<longrightarrow>
        tree_Archive w = None \<longrightarrow>
        (\<exists>bc opts. EvImageBuild bc opts \<in> set (fst (Build w b taskID version))
              \<and> Tags opts = [Repo (b_auth b) @ ''/task-'' @ sid @ '':'' @ version]))"
proof -
  have submitted: "\<exists>sid. sanitizeTaskID (unicode_lower w) taskID = Inr sid
            \<and> Tags opts = [Repo (b_auth b) @ ''/task-'' @ sid @ '':'' @ version]"
    if "EvImageBuild bc opts \<in> set (fst (Build w b taskID version))" for bc opts
    using Build_trace_events [OF that]
    by (auto simp add: build_options_def compose_tag_def)
  have returned: "\<exists>sid. sanitizeTaskID (unicode_lower w) taskID = Inr sid
            \<and> Tag out = Repo (b_auth b) @ ''/task-'' @ sid @ '':'' @ version"
    if "snd (Build w b taskID version) = Inr out" for out
    using Build_ok [OF that]
    by (auto dest!: search_images_Some simp add: compose_tag_def)
  have issues: "\<exists>bc opts. EvImageBuild bc opts \<in> set (fst (Build w b taskID version))
              \<and> Tags opts = [Repo (b_auth b) @ ''/task-'' @ sid @ '':'' @ version]"
    if "sanitizeTaskID (unicode_lower w) taskID = Inr sid" "NewTree w = None"
      "BuildDockerfile w \<lparr>df_Builder = b_name b, df_Root = b_root b, df_Args = b_args b\<rparr>
          = Inr buf"
      "tree_Write w ''Dockerfile'' buf = None" "tree_Copy w (b_root b) = None"
      "tree_Archive w = None" for sid buf
  proof -
    have "EvImageBuild \<lparr>a_dockerfile = buf, a_root = b_root b\<rparr>
            (build_options b (compose_tag (Repo (b_auth b)) sid version))
          \<in> set (fst (Build w b taskID version))"
      using that
      by (simp add: Build_def build_on_engine_def Let_def split: sum.splits option.splits)
    moreover have "Tags (build_options b (compose_tag (Repo (b_auth b)) sid version))
                   = [Repo (b_auth b) @ ''/task-'' @ sid @ '':'' @ version]"
      by (simp add: build_options_def compose_tag_def)
    ultimately show ?thesis by blast
  qed
  from submitted returned issues show ?thesis by blast
qed

theorem Build_composes_tag_witness:
  "sanitizeTaskID (unicode_lower demo_world) ''Task123'' = Inr ''task12a''
   \<and> snd (Build demo_world demo_builder ''Task123'' ''latest'')
       = Inr \<lparr>Tag = ''gcr.io/acme/task-task12a:latest''\<rparr>
   \<and> Tag \<lparr>Tag = ''gcr.io/acme/task-task12a:latest''\<rparr>
       = Repo (b_auth demo_builder) @ ''/task-'' @ ''task12a'' @ '':'' @ ''latest''
   \<and> (\<exists>bc opts. EvImageBuild bc opts
                   \<in> set (fst (Build demo_world demo_builder ''Task123'' ''latest''))
               \<and> Tags opts = [''gcr.io/acme/task-task12a:latest''])"
proof -
  from demo_Build obtain buf where
    run: "Build demo_world demo_builder ''Task123'' ''latest'' =
     ([EvSynthesize \<lparr>df_Builder = ''python'', df_Root = ''/srv/task'', df_Args = demo_args\<rparr>,
       EvImageBuild \<lparr>a_dockerfile = buf, a_root = ''/srv/task''\<rparr>
         (build_options demo_builder ''gcr.io/acme/task-task12a:latest''),
       EvImageList],
      Inr \<lparr>Tag = ''gcr.io/acme/task-task12a:latest''\<rparr>)"
    by blast
  then have ev: "EvImageBuild \<lparr>a_dockerfile = buf, a_root = ''/srv/task''\<rparr>
         (build_options demo_builder ''gcr.io/acme/task-task12a:latest'')
       \<in> set (fst (Build demo_world demo_builder ''Task123'' ''latest''))"
    and out: "snd (Build demo_world demo_builder ''Task123'' ''latest'')
       = Inr \<lparr>Tag = ''gcr.io/acme/task-task12a:latest''\<rparr>"
    by simp_all
  from Build_composes_tag [of demo_world demo_builder "''Task123''" "''latest''"] ev
  obtain sid where "sanitizeTaskID (unicode_lower demo_world) ''Task123'' = Inr sid"
    "Tags (build_options demo_builder ''gcr.io/acme/task-task12a:latest'')
       = [Repo (b_auth demo_builder) @ ''/task-'' @ sid @ '':'' @ ''latest'']"
    by blast
  then have "Tags (build_options demo_builder ''gcr.io/acme/task-task12a:latest'')
       = [''gcr.io/acme/task-task12a:latest'']"
    by (simp add: build_options_def)
  with ev have sub: "\<exists>bc opts. EvImageBuild bc opts
                   \<in> set (fst (Build demo_world demo_builder ''Task123'' ''latest''))
               \<and> Tags opts = [''gcr.io/acme/task-task12a:latest'']"
    by blast
  have tag: "Tag \<lparr>Tag = ''gcr.io/acme/task-task12a:latest''\<rparr>
       = Repo (b_auth demo_builder) @ ''/task-'' @ ''task12a'' @ '':'' @ ''latest''"
    by (simp add: demo_builder_fields)
  show ?thesis
    by (intro conjI demo_sanitize out tag sub)
qed

text \<open>
  C10. Every build request \<^verbatim>\<open>Build\<close> submits carries the empty build-arguments map, and
  its options are the same whatever args the builder is configured with; the args go
  into the configuration of Dockerfile synthesis.
\<close>

theorem Build_request_ignores_args:
  "(\<forall>bc opts. EvImageBuild bc opts \<in> set (fst (Build w b taskID version)) \<longrightarrow>
      BuildArgs opts = Map.empty
    \<and> EvSynthesize \<lparr>df_Builder = b_name b, df_Root = b_root b, df_Args = b_args b\<rparr>
        \<in> set (fst (Build w b taskID version)))
   \<and> (\<forall>bc opts bc' opts' args'.
        EvImageBuild bc opts \<in> set (fst (Build w b taskID version)) \<longrightarrow>
        EvImageBuild bc' opts' \<in> set (fst (Build w (b\<lparr>b_args := args'\<rparr>) taskID version)) \<longrightarrow>
        opts' = opts)"
proof -
  have empty: "BuildArgs opts = Map.empty"
    if "EvImageBuild bc opts \<in> set (fst (Build w b taskID version))" for bc opts
    using Build_trace_events [OF that] by (auto simp add: build_options_def)
  have synth: "EvSynthesize \<lparr>df_Builder = b_name b, df_Root = b_root b, df_Args = b_args b\<rparr>
        \<in> set (fst (Build w b taskID version))"
    if "EvImageBuild bc opts \<in> set (fst (Build w b taskID version))" for bc opts
    using that
    by (auto simp add: Build_def Let_def split: sum.splits option.splits prod.splits)
  have same: "opts' = opts"
    if "EvImageBuild bc opts \<in> set (fst (Build w b taskID version))"
      "EvImageBuild bc' opts' \<in> set (fst (Build w (b\<lparr>b_args := args'\<rparr>) taskID version))"
    for bc opts bc' opts' args'
    using Build_trace_events [OF that(1)] Build_trace_events [OF that(2)]
    by (auto simp add: build_options_def authconfigs_def registryAuth_def)
  from empty synth same show ?thesis by blast
qed

theorem Build_request_ignores_args_witness:
  "b_args demo_builder ''shim'' = Some ''true''
   \<and> (\<exists>bc opts. EvImageBuild bc opts
                   \<in> set (fst (Build demo_world demo_builder ''Task123'' ''latest''))
               \<and> BuildArgs opts = Map.empty)"
proof -
  from demo_Build obtain buf where
    "Build demo_world demo_builder ''Task123'' ''latest'' =
     ([EvSynthesize \<lparr>df_Builder = ''python'', df_Root = ''/srv/task'', df_Args = demo_args\<rparr>,
       EvImageBuild \<lparr>a_dockerfile = buf, a_root = ''/srv/task''\<rparr>
         (build_options demo_builder ''gcr.io/acme/task-task12a:latest''),
       EvImageList],
      Inr \<lparr>Tag = ''gcr.io/acme/task-task12a:latest''\<rparr>)"
    by blast
  then have ev: "EvImageBuild \<lparr>a_dockerfile = buf, a_root = ''/srv/task''\<rparr>
         (build_options demo_builder ''gcr.io/acme/task-task12a:latest'')
       \<in> set (fst (Build demo_world demo_builder ''Task123'' ''latest''))"
    by simp
  with Build_request_ignores_args [of demo_world demo_builder "''Task123''" "''latest''"]
  have "BuildArgs (build_options demo_builder ''gcr.io/acme/task-task12a:latest'') = Map.empty"
    by blast
  moreover have "b_args demo_builder ''shim'' = Some ''true''"
    by (simp add: demo_builder_fields demo_args_def)
  ultimately show ?thesis using ev by blast
qed

text \<open>
  C4. When a build request was submitted and answered without a transport error, its
  output was streamed and the listing does not hold the tag of the request, \<^verbatim>\<open>Build\<close>
  fails with the image-not-found error for that tag. A build output is returned only
  with the composed tag, found in the listing by equality. The orchestrator pushes only
  a tag that is in the listing, and when the build of its builder fails it returns that
  error wrapped and its log has no push.
\<close>

theorem Build_verifies_tag:
  "(\<forall>bc opts tag body images.
       EvImageBuild bc opts \<in> set (fst (Build w b taskID version)) \<longrightarrow>
       Tags opts = [tag] \<longrightarrow>
       ImageBuild w bc opts = Inr body \<longrightarrow>
       copy_output w (b_writer b) body = None \<longrightarrow>
       ImageList w = Inr images \<longrightarrow>
       (\<forall>img\<in>set images. tag \<notin> set img) \<longrightarrow>
       snd (Build w b taskID version) = Inl (ImageNotFound tag))
   \<and> (\<forall>out. snd (Build w b taskID version) = Inr out \<longrightarrow>
         (\<exists>sid images. sanitizeTaskID (unicode_lower w) taskID = Inr sid
            \<and> Tag out = compose_tag (Repo (b_auth b)) sid version
            \<and> ImageList w = Inr images
            \<and> (\<exists>img\<in>set images. Tag out \<in> set img)))
   \<and> (\<forall>t p. EvImagePush t p \<in> set (fst (Local w dir d taskID)) \<longrightarrow>
         (\<exists>images. ImageList w = Inr images \<and> (\<exists>img\<in>set images. t \<in> set img)))
   \<and> (\<forall>registry buildEnv kind options b' e.
         GetRegistryToken w = Inr registry \<longrightarrow>
         snd (getBuildEnv w d) = Inr buildEnv \<longrightarrow>
         KindAndOptions d = Inr (kind, options) \<longrightarrow>
         New w (local_config dir kind options registry buildEnv) = Inr b' \<longrightarrow>
         snd (Build w b' taskID ''latest'') = Inl e \<longrightarrow>
         snd (Local w dir d taskID) = Some (errors_Wrap ''build'' e)
         \<and> (\<forall>ev\<in>set (fst (Local w dir d taskID)). \<not> is_push ev))"
proof (intro conjI allI impI)
  fix bc opts tag body images
  assume "EvImageBuild bc opts \<in> set (fst (Build w b taskID version))" "Tags opts = [tag]"
    "ImageBuild w bc opts = Inr body" "copy_output w (b_writer b) body = None"
    "ImageList w = Inr images" "\<forall>img\<in>set images. tag \<notin> set img"
  then show "snd (Build w b taskID version) = Inl (ImageNotFound tag)"
    by (rule Build_not_found)
next
  fix out
  assume "snd (Build w b taskID version) = Inr out"
  then show "\<exists>sid images. sanitizeTaskID (unicode_lower w) taskID = Inr sid
            \<and> Tag out = compose_tag (Repo (b_auth b)) sid version
            \<and> ImageList w = Inr images
            \<and> (\<exists>img\<in>set images. Tag out \<in> set img)"
    by (rule Build_found)
next
  fix t p
  assume "EvImagePush t p \<in> set (fst (Local w dir d taskID))"
  from Local_push [OF this]
  show "\<exists>images. ImageList w = Inr images \<and> (\<exists>img\<in>set images. t \<in> set img)"
    by blast
next
  fix registry buildEnv kind options b' e
  assume run: "GetRegistryToken w = Inr registry" "snd (getBuildEnv w d) = Inr buildEnv"
    "KindAndOptions d = Inr (kind, options)"
    "New w (local_config dir kind options registry buildEnv) = Inr b'"
    "snd (Build w b' taskID ''latest'') = Inl e"
  from Local_build_failed [OF run]
  show "snd (Local w dir d taskID) = Some (errors_Wrap ''build'' e)"
    by (rule conjunct1)
  from Local_build_failed [OF run]
  show "\<forall>ev\<in>set (fst (Local w dir d taskID)). \<not> is_push ev"
    by (rule conjunct2)
qed

theorem Build_verifies_tag_witness:
  "snd (Build demo_world_no_image demo_builder ''Task123'' ''latest'')
     = Inl (ImageNotFound ''gcr.io/acme/task-task12a:latest'')
   \<and> snd (Local demo_world_no_image demo_dir demo_def ''Task123'')
     = Some (Wrap ''build'' (ImageNotFound ''gcr.io/acme/task-task12a:latest''))
   \<and> filter is_push (fst (Local demo_world_no_image demo_dir demo_def ''Task123'')) = []"
proof -
  note inst = Build_verifies_tag
    [where w = demo_world_no_image and b = demo_builder and taskID = "''Task123''"
       and version = "''latest''" and dir = demo_dir and d = demo_def]
  from demo_Build_no_image obtain buf where
    run: "Build demo_world_no_image demo_builder ''Task123'' ''latest'' =
     ([EvSynthesize \<lparr>df_Builder = ''python'', df_Root = ''/srv/task'', df_Args = demo_args\<rparr>,
       EvImageBuild \<lparr>a_dockerfile = buf, a_root = ''/srv/task''\<rparr>
         (build_options demo_builder ''gcr.io/acme/task-task12a:latest''),
       EvImageList],
      Inl (ImageNotFound ''gcr.io/acme/task-task12a:latest''))"
    by blast
  have ev: "EvImageBuild \<lparr>a_dockerfile = buf, a_root = ''/srv/task''\<rparr>
         (build_options demo_builder ''gcr.io/acme/task-task12a:latest'')
       \<in> set (fst (Build demo_world_no_image demo_builder ''Task123'' ''latest''))"
    by (simp add: run)
  have tags: "Tags (build_options demo_builder ''gcr.io/acme/task-task12a:latest'')
       = [''gcr.io/acme/task-task12a:latest'']"
    by (simp add: build_options_def)
  have engine: "ImageBuild demo_world_no_image \<lparr>a_dockerfile = buf, a_root = ''/srv/task''\<rparr>
       (build_options demo_builder ''gcr.io/acme/task-task12a:latest'') = Inr ''Successfully built''"
    "copy_output demo_world_no_image (b_writer demo_builder) ''Successfully built'' = None"
    "ImageList demo_world_no_image = Inr [[''busybox:latest'']]"
    by (simp_all add: demo_world_no_image_def demo_world_def)
  have absent: "''gcr.io/acme/task-task12a:latest'' \<notin> set img"
    if "img \<in> set [[''busybox:latest'']]" for img
    using that by simp
  have failed: "snd (Build demo_world_no_image demo_builder ''Task123'' ''latest'')
     = Inl (ImageNotFound ''gcr.io/acme/task-task12a:latest'')"
    by (rule inst [THEN conjunct1, rule_format, OF ev tags engine absent])
  have token: "GetRegistryToken demo_world_no_image
                 = Inr \<lparr>rt_Token = ''t0ken'', rt_Repo = ''gcr.io/acme''\<rparr>"
    by (simp add: demo_world_no_image_def demo_world_def)
  have env: "snd (getBuildEnv demo_world_no_image demo_def)
               = Inr [''MODE'' \<mapsto> ''fast'', ''DB_PASS'' \<mapsto> ''hunter2'']"
    by (simp add: demo_getBuildEnv_no_image)
  have kind: "KindAndOptions demo_def = Inr (''python'', demo_args)"
    by (simp add: demo_def_def)
  from inst [THEN conjunct2, THEN conjunct2, THEN conjunct2, rule_format,
      OF token env kind demo_New failed]
  have "snd (Local demo_world_no_image demo_dir demo_def ''Task123'')
          = Some (errors_Wrap ''build'' (ImageNotFound ''gcr.io/acme/task-task12a:latest''))"
    and "\<forall>ev\<in>set (fst (Local demo_world_no_image demo_dir demo_def ''Task123'')). \<not> is_push ev"
    by simp_all
  with failed show ?thesis
    by (simp add: errors_Wrap_def filter_empty_conv)
qed

section \<open>Claims about Dockerfile synthesis\<close>

text \<open>
  C7. Dockerfile synthesis fails with the unknown-builder error for every builder name
  other than \<^verbatim>\<open>go\<close>, \<^verbatim>\<open>deno\<close>, \<^verbatim>\<open>python\<close>, \<^verbatim>\<open>node\<close> and \<^verbatim>\<open>docker\<close>; for each of these it fails
  with the file-required error naming the entrypoint's file when the entrypoint is
  missing under the root; and whenever synthesis fails, \<^verbatim>\<open>Build\<close> fails without a single
  engine call in its log.
\<close>

theorem BuildDockerfile_fails_before_engine:
  "(df_Builder c \<notin> {''go'', ''deno'', ''python'', ''node'', ''docker''} \<longrightarrow>
      BuildDockerfile w c = Inl (UnknownBuilder (df_Builder c)))
   \<and> (df_Builder c \<in> {''go'', ''deno'', ''python'', ''node'', ''docker''} \<longrightarrow>
      \<not> stat w (filepath_Join (df_Root c) (lookup (df_Args c) ''entrypoint'')) \<longrightarrow>
      BuildDockerfile w c
        = Inl (FileRequired
                 (path_Base (filepath_Join (df_Root c) (lookup (df_Args c) ''entrypoint'')))))
   \<and> (\<forall>e. BuildDockerfile w \<lparr>df_Builder = b_name b, df_Root = b_root b, df_Args = b_args b\<rparr>
            = Inl e \<longrightarrow>
          (\<forall>ev\<in>set (fst (Build w b taskID version)). \<not> is_engine_call ev)
        \<and> (\<exists>e'. snd (Build w b taskID version) = Inl e'))"
proof (intro conjI allI impI)
  assume "df_Builder c \<notin> {''go'', ''deno'', ''python'', ''node'', ''docker''}"
  then show "BuildDockerfile w c = Inl (UnknownBuilder (df_Builder c))"
    by (rule BuildDockerfile_unknown)
next
  assume "df_Builder c \<in> {''go'', ''deno'', ''python'', ''node'', ''docker''}"
    "\<not> stat w (filepath_Join (df_Root c) (lookup (df_Args c) ''entrypoint''))"
  then show "BuildDockerfile w c
        = Inl (FileRequired
                 (path_Base (filepath_Join (df_Root c) (lookup (df_Args c) ''entrypoint''))))"
    by (rule BuildDockerfile_missing)
next
  fix e
  assume failed: "BuildDockerfile w \<lparr>df_Builder = b_name b, df_Root = b_root b, df_Args = b_args b\<rparr>
            = Inl e"
  from Build_synthesis_failed [OF failed]
  show "\<forall>ev\<in>set (fst (Build w b taskID version)). \<not> is_engine_call ev"
    by (rule conjunct1)
  from Build_synthesis_failed [OF failed]
  show "\<exists>e'. snd (Build w b taskID version) = Inl e'"
    by (rule conjunct2)
qed

theorem BuildDockerfile_fails_before_engine_witness:
  "''manual'' \<notin> {''go'', ''deno'', ''python'', ''node'', ''docker''}
   \<and> BuildDockerfile demo_world_empty_dir
        \<lparr>df_Builder = ''manual'', df_Root = ''/srv/task'', df_Args = demo_args\<rparr>
       = Inl (UnknownBuilder ''manual'')
   \<and> \<not> stat demo_world_empty_dir (filepath_Join ''/srv/task'' (lookup demo_args ''entrypoint''))
   \<and> BuildDockerfile demo_world_empty_dir
        \<lparr>df_Builder = ''python'', df_Root = ''/srv/task'', df_Args = demo_args\<rparr>
       = Inl (FileRequired ''main.py'')
   \<and> filter is_engine_call (fst (Build demo_world_empty_dir demo_builder ''Task123'' ''latest''))
       = []"
proof -
  have unknown: "''manual'' \<notin> {''go'', ''deno'', ''python'', ''node'', ''docker''}"
    by simp
  have missing: "\<not> stat demo_world_empty_dir
                     (filepath_Join ''/srv/task'' (lookup demo_args ''entrypoint''))"
    by (simp add: demo_world_empty_dir_def)
  note manual = BuildDockerfile_fails_before_engine
    [where c = "\<lparr>df_Builder = ''manual'', df_Root = ''/srv/task'', df_Args = demo_args\<rparr>"
       and w = demo_world_empty_dir and b = demo_builder and taskID = "''Task123''"
       and version = "''latest''"]
  note py = BuildDockerfile_fails_before_engine
    [where c = "\<lparr>df_Builder = ''python'', df_Root = ''/srv/task'', df_Args = demo_args\<rparr>"
       and w = demo_world_empty_dir and b = demo_builder and taskID = "''Task123''"
       and version = "''latest''"]
  from manual [THEN conjunct1] unknown
  have a: "BuildDockerfile demo_world_empty_dir
        \<lparr>df_Builder = ''manual'', df_Root = ''/srv/task'', df_Args = demo_args\<rparr>
       = Inl (UnknownBuilder ''manual'')"
    by simp
  from py [THEN conjunct2, THEN conjunct1] missing
  have b: "BuildDockerfile demo_world_empty_dir
        \<lparr>df_Builder = ''python'', df_Root = ''/srv/task'', df_Args = demo_args\<rparr>
       = Inl (FileRequired ''main.py'')"
    by (simp add: demo_entrypoint demo_main_path demo_base)
  from py [THEN conjunct2, THEN conjunct2] b
  have "\<forall>ev\<in>set (fst (Build demo_world_empty_dir demo_builder ''Task123'' ''latest'')).
          \<not> is_engine_call ev"
    by (simp add: demo_builder_fields)
  then have c: "filter is_engine_call
                  (fst (Build demo_world_empty_dir demo_builder ''Task123'' ''latest'')) = []"
    by (simp add: filter_empty_conv)
  show ?thesis
    by (intro conjI unknown a missing b c)
qed

text \<open>
  C8. A Python build with args \<^verbatim>\<open>{"shim":"true","entrypoint":"main.py"}\<close> on a root that has
  \<^verbatim>\<open>main.py\<close> and no \<^verbatim>\<open>requirements.txt\<close> yields, once the version and the shim are
  resolved, the recipe written out below: the escaped shim echoed into
  \<^verbatim>\<open>.airplane/shim.py\<close>, that file as the entrypoint, and no line that copies or installs
  requirements. With args \<^verbatim>\<open>{"shim":"false","entrypoint":"main.py"}\<close> on a root that has
  both files it yields the second recipe: \<^verbatim>\<open>pip install -r requirements.txt\<close> and
  \<^verbatim>\<open>/airplane/main.py\<close> as the entrypoint.
\<close>

theorem python_recipes:
  \<open>(stat w (filepath_Join rt ''main.py'') \<longrightarrow>
    \<not> stat w (filepath_Join rt ''requirements.txt'') \<longrightarrow>
    GetVersion w NamePython ''3'' = Inr v \<longrightarrow>
    shim_template w ''main.py'' = Inr shim \<longrightarrow>
    BuildDockerfile w
      \<lparr>df_Builder = ''python'', df_Root = rt,
       df_Args = [''shim'' \<mapsto> ''true'', ''entrypoint'' \<mapsto> ''main.py'']\<rparr>
    = Inr (''\<newline>    FROM '' @ v @
           ''\<newline>    WORKDIR /airplane\<newline>    RUN mkdir -p .airplane && echo '' @
           [CHR 0x27] @ escape_newlines shim @ [CHR 0x27] @
           '' > .airplane/shim.py\<newline>    \<newline>    COPY . .\<newline>    ENTRYPOINT ["python", ".airplane/shim.py"]\<newline>'' @
           [CHR 0x09]))
   \<and> (stat w (filepath_Join rt ''main.py'') \<longrightarrow>
    stat w (filepath_Join rt ''requirements.txt'') \<longrightarrow>
    GetVersion w NamePython ''3'' = Inr v \<longrightarrow>
    BuildDockerfile w
      \<lparr>df_Builder = ''python'', df_Root = rt,
       df_Args = [''shim'' \<mapsto> ''false'', ''entrypoint'' \<mapsto> ''main.py'']\<rparr>
    = Inr (''\<newline>    FROM '' @ v @
           ''\<newline>    WORKDIR /airplane\<newline>'' @ [CHR 0x09, CHR 0x09] @
           ''\<newline>    COPY . .\<newline>    RUN pip install -r requirements.txt\<newline>    ENTRYPOINT ["python", "/airplane/main.py"]\<newline>'' @
           [CHR 0x09]))\<close>
  by (simp add: BuildDockerfile_def python_def pythonLegacy_def PythonShim_def lookup_def
      fsx_AssertExistsAll_def fsx_Exists_def python_dockerfile_def python_legacy_dockerfile_def
      Let_def)

theorem python_recipes_witness:
  \<open>stat demo_world (filepath_Join ''/srv/task'' ''main.py'')
   \<and> \<not> stat demo_world (filepath_Join ''/srv/task'' ''requirements.txt'')
   \<and> BuildDockerfile demo_world
        \<lparr>df_Builder = ''python'', df_Root = ''/srv/task'',
         df_Args = [''shim'' \<mapsto> ''true'', ''entrypoint'' \<mapsto> ''main.py'']\<rparr>
       = Inr (''\<newline>    FROM python:3\<newline>    WORKDIR /airplane\<newline>    RUN mkdir -p .airplane && echo '' @
              [CHR 0x27] @ ''import runpy'' @ [CHR 0x5C, CHR ''n'', CHR 0x5C] @
              ''\<newline>runpy.run_path(main.py)'' @ [CHR 0x27] @
              '' > .airplane/shim.py\<newline>    \<newline>    COPY . .\<newline>    ENTRYPOINT ["python", ".airplane/shim.py"]\<newline>'' @
              [CHR 0x09])
   \<and> stat demo_world_reqs (filepath_Join ''/srv/task'' ''main.py'')
   \<and> stat demo_world_reqs (filepath_Join ''/srv/task'' ''requirements.txt'')
   \<and> BuildDockerfile demo_world_reqs
        \<lparr>df_Builder = ''python'', df_Root = ''/srv/task'',
         df_Args = [''shim'' \<mapsto> ''false'', ''entrypoint'' \<mapsto> ''main.py'']\<rparr>
       = Inr (''\<newline>    FROM python:3\<newline>    WORKDIR /airplane\<newline>'' @ [CHR 0x09, CHR 0x09] @
              ''\<newline>    COPY . .\<newline>    RUN pip install -r requirements.txt\<newline>    ENTRYPOINT ["python", "/airplane/main.py"]\<newline>'' @
              [CHR 0x09])\<close>
proof -
  have main: "stat demo_world (filepath_Join ''/srv/task'' ''main.py'')"
    and noreqs: "\<not> stat demo_world (filepath_Join ''/srv/task'' ''requirements.txt'')"
    and version: "GetVersion demo_world NamePython ''3'' = Inr ''python:3''"
    and shim: "shim_template demo_world ''main.py''
                 = Inr (''import runpy'' @ [CHR 0x0A] @ ''runpy.run_path(main.py)'')"
    by (simp_all add: demo_world_def demo_main_path demo_reqs_path NamePython_def)
  have main': "stat demo_world_reqs (filepath_Join ''/srv/task'' ''main.py'')"
    and reqs': "stat demo_world_reqs (filepath_Join ''/srv/task'' ''requirements.txt'')"
    and version': "GetVersion demo_world_reqs NamePython ''3'' = Inr ''python:3''"
    by (simp_all add: demo_world_reqs_def demo_world_def demo_main_path demo_reqs_path
        NamePython_def)
  note shimmed = python_recipes
    [where w = demo_world and rt = "''/srv/task''" and v = "''python:3''"
       and shim = "''import runpy'' @ [CHR 0x0A] @ ''runpy.run_path(main.py)''",
     THEN conjunct1, rule_format, OF main noreqs version shim]
  note legacy = python_recipes
    [where w = demo_world_reqs and rt = "''/srv/task''" and v = "''python:3''",
     THEN conjunct2, rule_format, OF main' reqs' version']
  from shimmed have a: \<open>BuildDockerfile demo_world
        \<lparr>df_Builder = ''python'', df_Root = ''/srv/task'',
         df_Args = [''shim'' \<mapsto> ''true'', ''entrypoint'' \<mapsto> ''main.py'']\<rparr>
       = Inr (''\<newline>    FROM python:3\<newline>    WORKDIR /airplane\<newline>    RUN mkdir -p .airplane && echo '' @
              [CHR 0x27] @ ''import runpy'' @ [CHR 0x5C, CHR ''n'', CHR 0x5C] @
              ''\<newline>runpy.run_path(main.py)'' @ [CHR 0x27] @
              '' > .airplane/shim.py\<newline>    \<newline>    COPY . .\<newline>    ENTRYPOINT ["python", ".airplane/shim.py"]\<newline>'' @
              [CHR 0x09])\<close>
    by (simp add: escape_newlines_def)
  from legacy have b: \<open>BuildDockerfile demo_world_reqs
        \<lparr>df_Builder = ''python'', df_Root = ''/srv/task'',
         df_Args = [''shim'' \<mapsto> ''false'', ''entrypoint'' \<mapsto> ''main.py'']\<rparr>
       = Inr (''\<newline>    FROM python:3\<newline>    WORKDIR /airplane\<newline>'' @ [CHR 0x09, CHR 0x09] @
              ''\<newline>    COPY . .\<newline>    RUN pip install -r requirements.txt\<newline>    ENTRYPOINT ["python", "/airplane/main.py"]\<newline>'' @
              [CHR 0x09])\<close>
    by simp
  show ?thesis
    by (intro conjI main noreqs a main' reqs' b)
qed

section \<open>Claims about env resolution\<close>

text \<open>
  C6. When env resolution succeeds on an environment map, every entry with a literal
  value is in the output under its name with that value, and every reference entry is
  there with the value the config service returned for its parsed name and tag on a
  request with the secret-reveal flag set; every request it issues has that flag set. It
  fails with the error of the first entry whose resolution fails, and succeeds when no
  entry fails. When it fails the orchestrator returns an error (that error, once the
  registry token was obtained), and its log has no synthesis and no engine call.
\<close>

theorem getBuildEnv_resolves:
  "(\<forall>m. distinct (map fst (Env d)) \<longrightarrow> snd (getBuildEnv w d) = Inr m \<longrightarrow>
        (\<forall>k v lit. (k, v) \<in> set (Env d) \<longrightarrow> ev_Value v = Some lit \<longrightarrow> m k = Some lit)
      \<and> (\<forall>k v c. (k, v) \<in> set (Env d) \<longrightarrow> ev_Value v = None \<longrightarrow> ev_Config v = Some c \<longrightarrow>
            (\<exists>nt val. ParseName w c = Inr nt
               \<and> GetConfig w \<lparr>cr_Name = nt_Name nt, cr_Tag = nt_Tag nt, cr_ShowSecret = True\<rparr>
                   = Inr val
               \<and> m k = Some val)))
   \<and> (\<forall>req. EvGetConfig req \<in> set (fst (getBuildEnv w d)) \<longrightarrow> cr_ShowSecret req)
   \<and> (\<forall>pre k v post e. Env d = pre @ (k, v) # post \<longrightarrow>
         (\<forall>kv\<in>set pre. resolution_error w (snd kv) = None) \<longrightarrow>
         resolution_error w v = Some e \<longrightarrow>
         snd (getBuildEnv w d) = Inl e)
   \<and> ((\<forall>kv\<in>set (Env d). resolution_error w (snd kv) = None) \<longrightarrow>
         (\<exists>m. snd (getBuildEnv w d) = Inr m))
   \<and> (\<forall>e. snd (getBuildEnv w d) = Inl e \<longrightarrow>
         (\<forall>ev\<in>set (fst (Local w dir d taskID)). \<not> is_build_step ev)
       \<and> (\<exists>e'. snd (Local w dir d taskID) = Some e')
       \<and> (\<forall>registry. GetRegistryToken w = Inr registry \<longrightarrow>
             snd (Local w dir d taskID) = Some e))"
proof (intro conjI allI impI)
  fix m k v lit
  assume "distinct (map fst (Env d))" "snd (getBuildEnv w d) = Inr m"
    "(k, v) \<in> set (Env d)" "ev_Value v = Some lit"
  then show "m k = Some lit"
    unfolding getBuildEnv_def by (rule getBuildEnv_loop_literal)
next
  fix m k v c
  assume "distinct (map fst (Env d))" "snd (getBuildEnv w d) = Inr m"
    "(k, v) \<in> set (Env d)" "ev_Value v = None" "ev_Config v = Some c"
  then show "\<exists>nt val. ParseName w c = Inr nt
               \<and> GetConfig w \<lparr>cr_Name = nt_Name nt, cr_Tag = nt_Tag nt, cr_ShowSecret = True\<rparr>
                   = Inr val
               \<and> m k = Some val"
    unfolding getBuildEnv_def by (rule getBuildEnv_loop_reference)
next
  fix req
  assume "EvGetConfig req \<in> set (fst (getBuildEnv w d))"
  from getBuildEnv_events [OF this] show "cr_ShowSecret req" by simp
next
  fix pre k v post e
  assume "Env d = pre @ (k, v) # post" "\<forall>kv\<in>set pre. resolution_error w (snd kv) = None"
    "resolution_error w v = Some e"
  then show "snd (getBuildEnv w d) = Inl e"
    by (simp add: getBuildEnv_def getBuildEnv_loop_fails)
next
  assume "\<forall>kv\<in>set (Env d). resolution_error w (snd kv) = None"
  then show "\<exists>m. snd (getBuildEnv w d) = Inr m"
    unfolding getBuildEnv_def by (rule getBuildEnv_loop_succeeds)
next
  fix e
  assume failed: "snd (getBuildEnv w d) = Inl e"
  from Local_env_failed [OF failed]
  show "\<forall>ev\<in>set (fst (Local w dir d taskID)). \<not> is_build_step ev"
    by (rule conjunct1)
  from Local_env_failed [OF failed]
  show "\<exists>e'. snd (Local w dir d taskID) = Some e'"
    by (rule conjunct2 [THEN conjunct1])
  fix registry
  assume "GetRegistryToken w = Inr registry"
  with Local_env_failed [OF failed, of dir taskID]
  show "snd (Local w dir d taskID) = Some e"
    by blast
qed

theorem getBuildEnv_resolves_witness:
  "distinct (map fst (Env demo_def))
   \<and> (\<exists>m. snd (getBuildEnv demo_world demo_def) = Inr m
          \<and> m ''MODE'' = Some ''fast'' \<and> m ''DB_PASS'' = Some ''hunter2'')
   \<and> snd (getBuildEnv demo_world demo_def_broken) = Inl (External ''config not found'')
   \<and> snd (Local demo_world demo_dir demo_def_broken ''Task123'')
       = Some (External ''config not found'')
   \<and> filter is_build_step (fst (Local demo_world demo_dir demo_def_broken ''Task123'')) = []"
proof -
  note ok = getBuildEnv_resolves
    [where w = demo_world and d = demo_def and dir = demo_dir and taskID = "''Task123''"]
  note broken = getBuildEnv_resolves
    [where w = demo_world and d = demo_def_broken and dir = demo_dir
       and taskID = "''Task123''"]
  have dist: "distinct (map fst (Env demo_def))"
    by (simp add: demo_def_def demo_env_def)
  have every: "resolution_error demo_world (snd kv) = None" if "kv \<in> set (Env demo_def)" for kv
    using that by (auto simp add: demo_def_def demo_env_def resolution_error_def demo_world_def)
  from ok [THEN conjunct2, THEN conjunct2, THEN conjunct2, THEN conjunct1, rule_format,
      OF every]
  obtain m where m: "snd (getBuildEnv demo_world demo_def) = Inr m"
    by blast
  have mode: "(''MODE'', \<lparr>ev_Value = Some ''fast'', ev_Config = None\<rparr>) \<in> set (Env demo_def)"
    and pass: "(''DB_PASS'', \<lparr>ev_Value = None, ev_Config = Some ''db:pass''\<rparr>) \<in> set (Env demo_def)"
    by (simp_all add: demo_def_def demo_env_def)
  from ok [THEN conjunct1, rule_format, OF dist m, THEN conjunct1, rule_format, OF mode]
  have lit: "m ''MODE'' = Some ''fast''" by simp
  from ok [THEN conjunct1, rule_format, OF dist m, THEN conjunct2, rule_format, OF pass]
  have ref: "m ''DB_PASS'' = Some ''hunter2''"
    by (auto simp add: demo_world_def split: if_splits)
  have split: "Env demo_def_broken
      = [(''MODE'', \<lparr>ev_Value = Some ''fast'', ev_Config = None\<rparr>)]
        @ (''API_KEY'', \<lparr>ev_Value = None, ev_Config = Some ''api:key''\<rparr>)
        # [(''DB_PASS'', \<lparr>ev_Value = None, ev_Config = Some ''db:pass''\<rparr>)]"
    by (simp add: demo_def_broken_def demo_env_broken_def)
  have before: "resolution_error demo_world (snd kv) = None"
    if "kv \<in> set [(''MODE'', \<lparr>ev_Value = Some ''fast'', ev_Config = None\<rparr>)]" for kv
    using that by (simp add: demo_resolution_errors)
  from broken [THEN conjunct2, THEN conjunct2, THEN conjunct1, rule_format,
      OF split before demo_resolution_errors(2)]
  have failed: "snd (getBuildEnv demo_world demo_def_broken) = Inl (External ''config not found'')" .
  have token: "GetRegistryToken demo_world = Inr \<lparr>rt_Token = ''t0ken'', rt_Repo = ''gcr.io/acme''\<rparr>"
    by (simp add: demo_world_def)
  note after = broken [THEN conjunct2, THEN conjunct2, THEN conjunct2, THEN conjunct2,
      rule_format, OF failed]
  from after have "\<forall>ev\<in>set (fst (Local demo_world demo_dir demo_def_broken ''Task123'')).
                     \<not> is_build_step ev"
    by (rule conjunct1)
  then have quiet: "filter is_build_step
                      (fst (Local demo_world demo_dir demo_def_broken ''Task123'')) = []"
    by (simp add: filter_empty_conv)
  from after token have ret: "snd (Local demo_world demo_dir demo_def_broken ''Task123'')
       = Some (External ''config not found'')"
    by blast
  from m lit ref have "\<exists>m. snd (getBuildEnv demo_world demo_def) = Inr m
          \<and> m ''MODE'' = Some ''fast'' \<and> m ''DB_PASS'' = Some ''hunter2''"
    by blast
  with dist failed ret quiet show ?thesis
    by (intro conjI)
qed

end
